theory Spec2Isabelle
  imports Complex_Main "HOL-Library.Monad_Syntax"
begin

section \<open>The code generator (mipsgen.c)\<close>

subsection \<open>Registers, instructions, labels\<close>

text \<open>
  \<^verbatim>\<open>item_t\<close> and the values of the C enumerations are integers. The register enumeration
  is kept numeric because the source computes with it (\<^verbatim>\<open>reg - R_T0\<close>, \<^verbatim>\<open>R_A0 + i\<close>) and
  reads register numbers out of \<^verbatim>\<open>item_t\<close> fields.
\<close>

type_synonym item_t = int
type_synonym mips_register_t = int

abbreviation (input) R_ZERO :: int where "R_ZERO \<equiv> 0"
abbreviation (input) R_AT :: int where "R_AT \<equiv> 1"
abbreviation (input) R_V0 :: int where "R_V0 \<equiv> 2"
abbreviation (input) R_V1 :: int where "R_V1 \<equiv> 3"
abbreviation (input) R_A0 :: int where "R_A0 \<equiv> 4"
abbreviation (input) R_A1 :: int where "R_A1 \<equiv> 5"
abbreviation (input) R_A2 :: int where "R_A2 \<equiv> 6"
abbreviation (input) R_A3 :: int where "R_A3 \<equiv> 7"
abbreviation (input) R_T0 :: int where "R_T0 \<equiv> 8"
abbreviation (input) R_T1 :: int where "R_T1 \<equiv> 9"
abbreviation (input) R_T2 :: int where "R_T2 \<equiv> 10"
abbreviation (input) R_T3 :: int where "R_T3 \<equiv> 11"
abbreviation (input) R_T4 :: int where "R_T4 \<equiv> 12"
abbreviation (input) R_T5 :: int where "R_T5 \<equiv> 13"
abbreviation (input) R_T6 :: int where "R_T6 \<equiv> 14"
abbreviation (input) R_T7 :: int where "R_T7 \<equiv> 15"
abbreviation (input) R_S0 :: int where "R_S0 \<equiv> 16"
abbreviation (input) R_S1 :: int where "R_S1 \<equiv> 17"
abbreviation (input) R_S2 :: int where "R_S2 \<equiv> 18"
abbreviation (input) R_S3 :: int where "R_S3 \<equiv> 19"
abbreviation (input) R_S4 :: int where "R_S4 \<equiv> 20"
abbreviation (input) R_S5 :: int where "R_S5 \<equiv> 21"
abbreviation (input) R_S6 :: int where "R_S6 \<equiv> 22"
abbreviation (input) R_S7 :: int where "R_S7 \<equiv> 23"
abbreviation (input) R_T8 :: int where "R_T8 \<equiv> 24"
abbreviation (input) R_T9 :: int where "R_T9 \<equiv> 25"
abbreviation (input) R_K0 :: int where "R_K0 \<equiv> 26"
abbreviation (input) R_K1 :: int where "R_K1 \<equiv> 27"
abbreviation (input) R_GP :: int where "R_GP \<equiv> 28"
abbreviation (input) R_SP :: int where "R_SP \<equiv> 29"
abbreviation (input) R_FP :: int where "R_FP \<equiv> 30"
abbreviation (input) R_RA :: int where "R_RA \<equiv> 31"
abbreviation (input) R_FV0 :: int where "R_FV0 \<equiv> 32"
abbreviation (input) R_FV1 :: int where "R_FV1 \<equiv> 33"
abbreviation (input) R_FV2 :: int where "R_FV2 \<equiv> 34"
abbreviation (input) R_FV3 :: int where "R_FV3 \<equiv> 35"
abbreviation (input) R_FA0 :: int where "R_FA0 \<equiv> 36"
abbreviation (input) R_FA1 :: int where "R_FA1 \<equiv> 37"
abbreviation (input) R_FA2 :: int where "R_FA2 \<equiv> 38"
abbreviation (input) R_FA3 :: int where "R_FA3 \<equiv> 39"
abbreviation (input) R_FT0 :: int where "R_FT0 \<equiv> 40"
abbreviation (input) R_FT1 :: int where "R_FT1 \<equiv> 41"
abbreviation (input) R_FT2 :: int where "R_FT2 \<equiv> 42"
abbreviation (input) R_FT3 :: int where "R_FT3 \<equiv> 43"
abbreviation (input) R_FT4 :: int where "R_FT4 \<equiv> 44"
abbreviation (input) R_FT5 :: int where "R_FT5 \<equiv> 45"
abbreviation (input) R_FT6 :: int where "R_FT6 \<equiv> 46"
abbreviation (input) R_FT7 :: int where "R_FT7 \<equiv> 47"
abbreviation (input) R_FT8 :: int where "R_FT8 \<equiv> 48"
abbreviation (input) R_FT9 :: int where "R_FT9 \<equiv> 49"
abbreviation (input) R_FT10 :: int where "R_FT10 \<equiv> 50"
abbreviation (input) R_FT11 :: int where "R_FT11 \<equiv> 51"
abbreviation (input) R_FS0 :: int where "R_FS0 \<equiv> 52"
abbreviation (input) R_FS1 :: int where "R_FS1 \<equiv> 53"
abbreviation (input) R_FS2 :: int where "R_FS2 \<equiv> 54"
abbreviation (input) R_FS3 :: int where "R_FS3 \<equiv> 55"
abbreviation (input) R_FS4 :: int where "R_FS4 \<equiv> 56"
abbreviation (input) R_FS5 :: int where "R_FS5 \<equiv> 57"
abbreviation (input) R_FS6 :: int where "R_FS6 \<equiv> 58"
abbreviation (input) R_FS7 :: int where "R_FS7 \<equiv> 59"
abbreviation (input) R_FS8 :: int where "R_FS8 \<equiv> 60"
abbreviation (input) R_FS9 :: int where "R_FS9 \<equiv> 61"
abbreviation (input) R_FS10 :: int where "R_FS10 \<equiv> 62"
abbreviation (input) R_FS11 :: int where "R_FS11 \<equiv> 63"

definition register_names :: "string list" where
  "register_names =
     [''$0'', ''$at'', ''$v0'', ''$v1'', ''$a0'', ''$a1'', ''$a2'', ''$a3'', ''$t0'', ''$t1'', ''$t2'', ''$t3'', ''$t4'', ''$t5'', ''$t6'', ''$t7'', ''$s0'', ''$s1'', ''$s2'', ''$s3'', ''$s4'', ''$s5'', ''$s6'', ''$s7'', ''$t8'', ''$t9'', ''$k0'', ''$k1'', ''$gp'', ''$sp'', ''$fp'', ''$ra'', ''$f0'', ''$f1'', ''$f2'', ''$f3'', ''$f12'', ''$f13'', ''$f14'', ''$f15'', ''$f4'', ''$f5'', ''$f6'', ''$f7'', ''$f8'', ''$f9'', ''$f10'', ''$f11'', ''$f16'', ''$f17'', ''$f18'', ''$f19'', ''$f20'', ''$f21'', ''$f22'', ''$f23'', ''$f24'', ''$f25'', ''$f26'', ''$f27'', ''$f28'', ''$f29'', ''$f30'', ''$f31'']"

definition mips_register_to_io :: "mips_register_t \<Rightarrow> string" where
  "mips_register_to_io reg = (if 0 \<le> reg \<and> reg < 64 then register_names ! nat reg else [])"

datatype mips_instruction_t =
    IC_MIPS_MOVE
  | IC_MIPS_LI
  | IC_MIPS_NOT
  | IC_MIPS_ADDI
  | IC_MIPS_SLL
  | IC_MIPS_SRA
  | IC_MIPS_ANDI
  | IC_MIPS_XORI
  | IC_MIPS_ORI
  | IC_MIPS_ADD
  | IC_MIPS_SUB
  | IC_MIPS_MUL
  | IC_MIPS_DIV
  | IC_MIPS_MOD
  | IC_MIPS_SLLV
  | IC_MIPS_SRAV
  | IC_MIPS_AND
  | IC_MIPS_XOR
  | IC_MIPS_OR
  | IC_MIPS_SW
  | IC_MIPS_LW
  | IC_MIPS_JR
  | IC_MIPS_JAL
  | IC_MIPS_J
  | IC_MIPS_BLEZ
  | IC_MIPS_BLTZ
  | IC_MIPS_BGEZ
  | IC_MIPS_BGTZ
  | IC_MIPS_BEQ
  | IC_MIPS_BNE
  | IC_MIPS_LA
  | IC_MIPS_NOP
  | IC_MIPS_ADD_S
  | IC_MIPS_SUB_S
  | IC_MIPS_MUL_S
  | IC_MIPS_DIV_S
  | IC_MIPS_S_S
  | IC_MIPS_L_S
  | IC_MIPS_LI_S
  | IC_MIPS_MOV_S
  | IC_MIPS_MFC_1
  | IC_MIPS_MFHC_1
  | IC_MIPS_CVT_D_S
  | IC_MIPS_CVT_S_W
  | IC_MIPS_CVT_W_S

primrec instruction_to_io :: "mips_instruction_t \<Rightarrow> string" where
  "instruction_to_io IC_MIPS_MOVE = ''move''"
| "instruction_to_io IC_MIPS_LI = ''li''"
| "instruction_to_io IC_MIPS_LA = ''la''"
| "instruction_to_io IC_MIPS_NOT = ''not''"
| "instruction_to_io IC_MIPS_ADDI = ''addi''"
| "instruction_to_io IC_MIPS_SLL = ''sll''"
| "instruction_to_io IC_MIPS_SRA = ''sra''"
| "instruction_to_io IC_MIPS_ANDI = ''andi''"
| "instruction_to_io IC_MIPS_XORI = ''xori''"
| "instruction_to_io IC_MIPS_ORI = ''ori''"
| "instruction_to_io IC_MIPS_ADD = ''add''"
| "instruction_to_io IC_MIPS_SUB = ''sub''"
| "instruction_to_io IC_MIPS_MUL = ''mul''"
| "instruction_to_io IC_MIPS_DIV = ''div''"
| "instruction_to_io IC_MIPS_MOD = ''mod''"
| "instruction_to_io IC_MIPS_SLLV = ''sllv''"
| "instruction_to_io IC_MIPS_SRAV = ''srav''"
| "instruction_to_io IC_MIPS_AND = ''and''"
| "instruction_to_io IC_MIPS_XOR = ''xor''"
| "instruction_to_io IC_MIPS_OR = ''or''"
| "instruction_to_io IC_MIPS_SW = ''sw''"
| "instruction_to_io IC_MIPS_LW = ''lw''"
| "instruction_to_io IC_MIPS_JR = ''jr''"
| "instruction_to_io IC_MIPS_JAL = ''jal''"
| "instruction_to_io IC_MIPS_J = ''j''"
| "instruction_to_io IC_MIPS_BLEZ = ''blez''"
| "instruction_to_io IC_MIPS_BLTZ = ''bltz''"
| "instruction_to_io IC_MIPS_BGEZ = ''bgez''"
| "instruction_to_io IC_MIPS_BGTZ = ''bgtz''"
| "instruction_to_io IC_MIPS_BEQ = ''beq''"
| "instruction_to_io IC_MIPS_BNE = ''bne''"
| "instruction_to_io IC_MIPS_NOP = ''nop''"
| "instruction_to_io IC_MIPS_ADD_S = ''add.s''"
| "instruction_to_io IC_MIPS_SUB_S = ''sub.s''"
| "instruction_to_io IC_MIPS_MUL_S = ''mul.s''"
| "instruction_to_io IC_MIPS_DIV_S = ''div.s''"
| "instruction_to_io IC_MIPS_S_S = ''s.s''"
| "instruction_to_io IC_MIPS_L_S = ''l.s''"
| "instruction_to_io IC_MIPS_LI_S = ''li.s''"
| "instruction_to_io IC_MIPS_MOV_S = ''mov.s''"
| "instruction_to_io IC_MIPS_MFC_1 = ''mfc1''"
| "instruction_to_io IC_MIPS_MFHC_1 = ''mfhc1''"
| "instruction_to_io IC_MIPS_CVT_D_S = ''cvt.d.s''"
| "instruction_to_io IC_MIPS_CVT_S_W = ''cvt.s.w''"
| "instruction_to_io IC_MIPS_CVT_W_S = ''cvt.w.s''"

datatype mips_label_t = L_FUNC | L_NEXT | L_FUNCEND | L_STRING | L_ELSE | L_END | L_BEGIN_CYCLE

record label =
  lbl_kind :: mips_label_t
  lbl_num :: nat

subsection \<open>Values and the generator's state\<close>

text \<open>
  The union \<^verbatim>\<open>val\<close> of an rvalue has three \<^verbatim>\<open>item_t\<close> members (\<^verbatim>\<open>reg_num\<close>, \<^verbatim>\<open>int_val\<close>,
  \<^verbatim>\<open>str_index\<close>) that share their storage, here the one field \<open>reg_num\<close>, and a \<^verbatim>\<open>double\<close>
  member, here the field \<open>float_val\<close> beside it. Every value of the C union is a value of
  the record (the record has more values; the theorems quantify over all of them). The
  union \<^verbatim>\<open>loc\<close> of an lvalue has two \<^verbatim>\<open>item_t\<close> members and is the field \<open>displ\<close>.
  A \<^verbatim>\<open>double\<close> is a real number here; how \<^verbatim>\<open>printf\<close> writes one is left to a parameter.
\<close>

type_synonym double = real

datatype lvalue_kind_t = LVALUE_KIND_STACK | LVALUE_KIND_REGISTER

record lvalue =
  lkind :: lvalue_kind_t
  base_reg :: mips_register_t
  displ :: item_t
  ltype :: item_t

datatype rvalue_kind_t = RVALUE_KIND_CONST | RVALUE_KIND_REGISTER | RVALUE_KIND_VOID

record rvalue =
  kind :: rvalue_kind_t
  type :: item_t
  from_lvalue :: bool
  reg_num :: item_t
  float_val :: double

abbreviation (input) int_val :: "rvalue \<Rightarrow> item_t" where "int_val \<equiv> reg_num"

abbreviation (input) FROM_LVALUE :: bool where "FROM_LVALUE \<equiv> True"

text \<open>
  The state \<^verbatim>\<open>information\<close>. The text written to \<^verbatim>\<open>info->sx->io\<close> is the field \<open>io\<close>; the
  array \<^verbatim>\<open>bool registers[24]\<close> is a function of the index; the hash table of displacements
  maps an identifier to its values (kind, displacement or register, base register); the
  field \<^verbatim>\<open>displ\<close> is \<open>info_displ\<close>, and \<open>rprt_errors\<close> is the error count \<^verbatim>\<open>info->sx->rprt.errors\<close>.
\<close>

record information =
  io :: string
  max_displ :: nat
  global_displ :: nat
  displacements :: "nat \<Rightarrow> item_t list option"
  next_register :: mips_register_t
  next_float_register :: mips_register_t
  label_num :: nat
  label_else :: label
  label_continue :: label
  label_break :: label
  curr_function_ident :: nat
  registers :: "nat \<Rightarrow> bool"
  info_displ :: item_t
  rprt_errors :: nat

abbreviation (input) TEMP_FP_REG_AMOUNT :: nat where "TEMP_FP_REG_AMOUNT \<equiv> 12"
abbreviation (input) TEMP_REG_AMOUNT :: nat where "TEMP_REG_AMOUNT \<equiv> 8"
abbreviation (input) ARG_REG_AMOUNT :: nat where "ARG_REG_AMOUNT \<equiv> 4"
abbreviation (input) PRESERVED_REG_AMOUNT :: nat where "PRESERVED_REG_AMOUNT \<equiv> 8"
abbreviation (input) PRESERVED_FP_REG_AMOUNT :: nat where "PRESERVED_FP_REG_AMOUNT \<equiv> 10"
abbreviation (input) WORD_LENGTH :: nat where "WORD_LENGTH \<equiv> 4"
abbreviation (input) SP_SIZE :: nat where "SP_SIZE \<equiv> 4"
abbreviation (input) RA_SIZE :: nat where "RA_SIZE \<equiv> 4"
abbreviation (input) FUNC_DISPL_PRESEREVED :: nat where
  "FUNC_DISPL_PRESEREVED \<equiv> 4 + 4 + 5 * 4 + 8 * 4 + 4 * 4"

subsection \<open>The register bank\<close>

text \<open>
  The search loops of \<^verbatim>\<open>get_register\<close> and \<^verbatim>\<open>get_float_register\<close>: the first index from \<open>i\<close>
  on, in steps of \<open>step\<close> and below \<open>bound\<close>, whose register is free; \<open>bound\<close> or more when
  there is none. The \<^verbatim>\<open>assert\<close> after the loop aborts the run: the result \<open>None\<close>.
\<close>

function first_free :: "(nat \<Rightarrow> bool) \<Rightarrow> nat \<Rightarrow> nat \<Rightarrow> nat \<Rightarrow> nat" where
  "first_free regs step bound i =
     (if i < bound \<and> 0 < step then (if \<not> regs i then i else first_free regs step bound (i + step))
      else i)"
  by pat_completeness auto
termination
  by (relation "measure (\<lambda>(regs, step, bound, i). bound - i)") auto

declare first_free.simps [simp del]

definition get_register :: "information \<Rightarrow> (mips_register_t \<times> information) option" where
  "get_register info =
     (let i = first_free (registers info) 1 TEMP_REG_AMOUNT 0 in
      if i = TEMP_REG_AMOUNT then None
      else Some (int i + R_T0, info\<lparr>registers := (registers info)(i := True)\<rparr>))"

definition get_float_register :: "information \<Rightarrow> (mips_register_t \<times> information) option" where
  "get_float_register info =
     (let i = first_free (registers info) 2 (TEMP_FP_REG_AMOUNT + TEMP_REG_AMOUNT) 8 in
      if i = TEMP_FP_REG_AMOUNT + TEMP_REG_AMOUNT then None
      else Some (int i + R_FT0 - 10, info\<lparr>registers := (registers info)(i := True)\<rparr>))"

text \<open>
  \<^verbatim>\<open>free_register\<close>: the three groups of case labels are the three ranges of the
  enumeration; the index into \<^verbatim>\<open>registers\<close> is computed as in the source.
\<close>

definition free_register :: "information \<Rightarrow> mips_register_t \<Rightarrow> information" where
  "free_register info reg =
     (if R_T0 \<le> reg \<and> reg \<le> R_T7 then
        (if registers info (nat (reg - R_T0))
         then info\<lparr>registers := (registers info)(nat (reg - R_T0) := False)\<rparr> else info)
      else if R_T8 \<le> reg \<and> reg \<le> R_T9 then
        (if registers info (nat (reg - R_T8 + 8))
         then info\<lparr>registers := (registers info)(nat (reg - R_T8 + 8) := False)\<rparr> else info)
      else if R_FT0 \<le> reg \<and> reg \<le> R_FT11 then
        (if registers info (nat (reg - R_FT0 + 10))
         then info\<lparr>registers := (registers info)(nat (reg - R_FT0 + 10) := False)\<rparr> else info)
      else info)"

definition free_rvalue :: "information \<Rightarrow> rvalue \<Rightarrow> information" where
  "free_rvalue info rval =
     (if kind rval = RVALUE_KIND_REGISTER \<and> \<not> from_lvalue rval
      then free_register info (reg_num rval) else info)"

text \<open>The temporary registers, and the index of one in \<^verbatim>\<open>registers\<close>.\<close>

definition is_temporary :: "mips_register_t \<Rightarrow> bool" where
  "is_temporary reg \<longleftrightarrow>
     (R_T0 \<le> reg \<and> reg \<le> R_T7) \<or> (R_T8 \<le> reg \<and> reg \<le> R_T9) \<or> (R_FT0 \<le> reg \<and> reg \<le> R_FT11)"

definition register_index :: "mips_register_t \<Rightarrow> nat" where
  "register_index reg =
     (if reg \<le> R_T7 then nat (reg - R_T0)
      else if reg \<le> R_T9 then nat (reg - R_T8 + 8)
      else nat (reg - R_FT0 + 10))"

subsection \<open>Freeing an rvalue\<close>

text \<open>A state for examples: nothing emitted, no register taken, the label counter at 1.\<close>

definition information_zero :: information where
  "information_zero =
     \<lparr>io = [], max_displ = 0, global_displ = 0, displacements = (\<lambda>_. None),
      next_register = R_T0, next_float_register = R_FT0, label_num = 1,
      label_else = \<lparr>lbl_kind = L_ELSE, lbl_num = 0\<rparr>,
      label_continue = \<lparr>lbl_kind = L_BEGIN_CYCLE, lbl_num = 0\<rparr>,
      label_break = \<lparr>lbl_kind = L_END, lbl_num = 0\<rparr>,
      curr_function_ident = 0, registers = (\<lambda>_. False), info_displ = 0, rprt_errors = 0\<rparr>"

lemma free_register_other:
  assumes "\<not> is_temporary reg"
  shows "free_register info reg = info"
proof -
  from assms have "\<not> (R_T0 \<le> reg \<and> reg \<le> R_T7)" "\<not> (R_T8 \<le> reg \<and> reg \<le> R_T9)"
    "\<not> (R_FT0 \<le> reg \<and> reg \<le> R_FT11)"
    unfolding is_temporary_def by blast+
  then show ?thesis
    unfolding free_register_def by (simp only: if_False)
qed

lemma free_register_t:
  assumes "R_T0 \<le> reg \<and> reg \<le> R_T7"
  shows "free_register info reg =
    (if registers info (nat (reg - R_T0))
         then info\<lparr>registers := (registers info)(nat (reg - R_T0) := False)\<rparr> else info)"
  using assms unfolding free_register_def by simp

lemma free_register_t8:
  assumes "R_T8 \<le> reg \<and> reg \<le> R_T9"
  shows "free_register info reg =
    (if registers info (nat (reg - R_T8 + 8))
         then info\<lparr>registers := (registers info)(nat (reg - R_T8 + 8) := False)\<rparr> else info)"
proof -
  from assms have "\<not> (R_T0 \<le> reg \<and> reg \<le> R_T7)" by arith
  with assms show ?thesis unfolding free_register_def by simp
qed

lemma free_register_ft:
  assumes "R_FT0 \<le> reg \<and> reg \<le> R_FT11"
  shows "free_register info reg =
    (if registers info (nat (reg - R_FT0 + 10))
         then info\<lparr>registers := (registers info)(nat (reg - R_FT0 + 10) := False)\<rparr> else info)"
proof -
  from assms have "\<not> (R_T0 \<le> reg \<and> reg \<le> R_T7)" "\<not> (R_T8 \<le> reg \<and> reg \<le> R_T9)" by arith+
  with assms show ?thesis unfolding free_register_def by simp
qed

lemma register_index_t: "R_T0 \<le> reg \<and> reg \<le> R_T7 \<Longrightarrow> register_index reg = nat (reg - R_T0)"
  unfolding register_index_def by simp

lemma register_index_t8: "R_T8 \<le> reg \<and> reg \<le> R_T9 \<Longrightarrow> register_index reg = nat (reg - R_T8 + 8)"
  unfolding register_index_def by simp

lemma register_index_ft: "R_FT0 \<le> reg \<and> reg \<le> R_FT11 \<Longrightarrow> register_index reg = nat (reg - R_FT0 + 10)"
  unfolding register_index_def by simp


lemma is_temporary_cases:
  assumes "is_temporary reg"
  obtains (t) "R_T0 \<le> reg \<and> reg \<le> R_T7" | (t8) "R_T8 \<le> reg \<and> reg \<le> R_T9"
    | (ft) "R_FT0 \<le> reg \<and> reg \<le> R_FT11"
  using assms unfolding is_temporary_def by blast

lemma free_register_temporary:
  assumes "is_temporary reg"
  shows "free_register info reg =
    (if registers info (register_index reg)
     then info\<lparr>registers := (registers info)(register_index reg := False)\<rparr> else info)"
  using assms
proof (cases rule: is_temporary_cases)
  case t
  then show ?thesis by (simp only: free_register_t register_index_t)
next
  case t8
  then show ?thesis by (simp only: free_register_t8 register_index_t8)
next
  case ft
  then show ?thesis by (simp only: free_register_ft register_index_ft)
qed

lemma free_register_noop:
  assumes "\<not> is_temporary reg \<or> \<not> registers info (register_index reg)"
  shows "free_register info reg = info"
proof (cases "is_temporary reg")
  case True
  with assms have "\<not> registers info (register_index reg)" by blast
  with True show ?thesis by (simp only: free_register_temporary if_False)
next
  case False
  then show ?thesis by (rule free_register_other)
qed

lemma free_register_release:
  assumes "is_temporary reg" "registers info (register_index reg)"
  shows "free_register info reg = info\<lparr>registers := (registers info)(register_index reg := False)\<rparr>"
  using assms by (simp only: free_register_temporary if_True)

lemma information_registers_changed:
  "registers info i \<Longrightarrow> info\<lparr>registers := (registers info)(i := False)\<rparr> \<noteq> info"
proof
  assume busy: "registers info i" and eq: "info\<lparr>registers := (registers info)(i := False)\<rparr> = info"
  from eq have "registers (info\<lparr>registers := (registers info)(i := False)\<rparr>) i = registers info i"
    by simp
  with busy show False by simp
qed

text \<open>
  Claim C5. \<^verbatim>\<open>free_rvalue\<close> hands a register to \<^verbatim>\<open>free_register\<close> exactly when the rvalue
  is of kind REGISTER and not marked \<open>from_lvalue\<close>, and otherwise leaves the state as it
  is; so an rvalue marked \<open>from_lvalue\<close> is never freed. \<^verbatim>\<open>free_register\<close> changes nothing
  for a register that is not a temporary or whose busy bit is already clear, and
  otherwise clears exactly that busy bit. Hence the state changes if and only if the
  rvalue is a REGISTER, not \<open>from_lvalue\<close>, and its register a busy temporary.
\<close>

theorem free_rvalue_frees_iff:
  "free_rvalue info rv =
     (if kind rv = RVALUE_KIND_REGISTER \<and> \<not> from_lvalue rv
      then free_register info (reg_num rv) else info)
   \<and> (from_lvalue rv \<longrightarrow> free_rvalue info rv = info)
   \<and> (\<not> is_temporary reg \<or> \<not> registers info (register_index reg) \<longrightarrow>
        free_register info reg = info)
   \<and> (is_temporary reg \<and> registers info (register_index reg) \<longrightarrow>
        free_register info reg = info\<lparr>registers := (registers info)(register_index reg := False)\<rparr>)
   \<and> (free_rvalue info rv \<noteq> info \<longleftrightarrow>
        kind rv = RVALUE_KIND_REGISTER \<and> \<not> from_lvalue rv \<and> is_temporary (reg_num rv)
        \<and> registers info (register_index (reg_num rv)))"
proof (intro conjI impI)
  show "free_rvalue info rv =
     (if kind rv = RVALUE_KIND_REGISTER \<and> \<not> from_lvalue rv
      then free_register info (reg_num rv) else info)"
    by (simp add: free_rvalue_def)
  show "free_rvalue info rv = info" if "from_lvalue rv"
    using that by (simp add: free_rvalue_def)
  show "free_register info reg = info"
    if "\<not> is_temporary reg \<or> \<not> registers info (register_index reg)"
    using that by (rule free_register_noop)
  show "free_register info reg = info\<lparr>registers := (registers info)(register_index reg := False)\<rparr>"
    if "is_temporary reg \<and> registers info (register_index reg)"
    using that by (simp only: free_register_release)
  show "free_rvalue info rv \<noteq> info \<longleftrightarrow>
        kind rv = RVALUE_KIND_REGISTER \<and> \<not> from_lvalue rv \<and> is_temporary (reg_num rv)
        \<and> registers info (register_index (reg_num rv))"
  proof (cases "kind rv = RVALUE_KIND_REGISTER \<and> \<not> from_lvalue rv")
    case False
    then have "free_rvalue info rv = info"
      unfolding free_rvalue_def by (rule if_not_P)
    with False show ?thesis by blast
  next
    case cond: True
    then have eq: "free_rvalue info rv = free_register info (reg_num rv)"
      unfolding free_rvalue_def by (rule if_P)
    show ?thesis
    proof (cases "is_temporary (reg_num rv) \<and> registers info (register_index (reg_num rv))")
      case True
      then have "free_register info (reg_num rv) \<noteq> info"
        by (simp only: free_register_release information_registers_changed not_False_eq_True)
      with cond True eq show ?thesis by simp
    next
      case False
      then have "free_register info (reg_num rv) = info"
        by (intro free_register_noop) blast
      with False eq show ?thesis by simp
    qed
  qed
qed

theorem free_rvalue_frees_iff_witness:
  "registers (free_rvalue (information_zero\<lparr>registers := (\<lambda>i. i = 3)\<rparr>)
      \<lparr>kind = RVALUE_KIND_REGISTER, type = 0, from_lvalue = False, reg_num = R_T3, float_val = 0\<rparr>) 3
     = False
   \<and> free_rvalue (information_zero\<lparr>registers := (\<lambda>i. i = 3)\<rparr>)
      \<lparr>kind = RVALUE_KIND_REGISTER, type = 0, from_lvalue = True, reg_num = R_T3, float_val = 0\<rparr>
     = information_zero\<lparr>registers := (\<lambda>i. i = 3)\<rparr>
   \<and> free_register (information_zero\<lparr>registers := (\<lambda>i. i = 3)\<rparr>) R_SP
     = information_zero\<lparr>registers := (\<lambda>i. i = 3)\<rparr>
   \<and> free_register (information_zero\<lparr>registers := (\<lambda>i. i = 3)\<rparr>) R_T4
     = information_zero\<lparr>registers := (\<lambda>i. i = 3)\<rparr>"
proof -
  let ?info = "information_zero\<lparr>registers := (\<lambda>i. i = 3)\<rparr>"
  let ?rv = "\<lparr>kind = RVALUE_KIND_REGISTER, type = 0, from_lvalue = False, reg_num = R_T3, float_val = 0\<rparr>"
  let ?lv = "\<lparr>kind = RVALUE_KIND_REGISTER, type = 0, from_lvalue = True, reg_num = R_T3, float_val = 0\<rparr>"
  have tmp: "is_temporary R_T3" "register_index R_T3 = 3" "\<not> is_temporary R_SP"
    "is_temporary R_T4" "register_index R_T4 = 4"
    by (simp_all add: is_temporary_def register_index_def)
  have a: "free_rvalue ?info ?rv = ?info\<lparr>registers := (registers ?info)(3 := False)\<rparr>"
    using free_rvalue_frees_iff [of ?info ?rv R_T3] tmp by simp
  have b: "free_rvalue ?info ?lv = ?info"
    using free_rvalue_frees_iff [of ?info ?lv R_T3] by simp
  have c: "free_register ?info R_SP = ?info"
    using free_rvalue_frees_iff [of ?info ?rv R_SP] tmp by simp
  have d: "free_register ?info R_T4 = ?info"
    using free_rvalue_frees_iff [of ?info ?rv R_T4] tmp by simp
  show ?thesis
    by (simp add: a b c d)
qed

subsection \<open>Writing text\<close>

text \<open>
  A function of the source that only writes to the output is the text it writes; the
  caller appends it to \<open>io\<close> with \<open>uni_printf\<close>. Where such a function has an \<^verbatim>\<open>assert\<close>,
  its result is an option and \<open>None\<close> is the aborted run. The conversions \<^verbatim>\<open>%zu\<close> and
  \<^verbatim>\<open>PRIitem\<close> of \<^verbatim>\<open>printf\<close> write a number in decimal.
\<close>

abbreviation (input) TAB :: string where "TAB \<equiv> [CHR 0x09]"
abbreviation (input) NL :: string where "NL \<equiv> [CHR 0x0A]"

definition digit :: "nat \<Rightarrow> char" where
  "digit n = ''0123456789'' ! n"

function size_to_str :: "nat \<Rightarrow> string" where
  "size_to_str n = (if n < 10 then [digit n] else size_to_str (n div 10) @ [digit (n mod 10)])"
  by pat_completeness auto
termination
  by (relation "measure id") auto

declare size_to_str.simps [simp del]

definition item_to_str :: "item_t \<Rightarrow> string" where
  "item_to_str i = (if i < 0 then CHR ''-'' # size_to_str (nat (- i)) else size_to_str (nat i))"

definition uni_printf :: "information \<Rightarrow> string \<Rightarrow> information" where
  "uni_printf info s = info\<lparr>io := io info @ s\<rparr>"

definition to_code_2R :: "mips_instruction_t \<Rightarrow> mips_register_t \<Rightarrow> mips_register_t \<Rightarrow> string" where
  "to_code_2R instruction fst_reg snd_reg =
     TAB @ instruction_to_io instruction @ '' '' @ mips_register_to_io fst_reg @ '', ''
       @ mips_register_to_io snd_reg @ NL"

definition to_code_2R_I ::
  "mips_instruction_t \<Rightarrow> mips_register_t \<Rightarrow> mips_register_t \<Rightarrow> item_t \<Rightarrow> string" where
  "to_code_2R_I instruction fst_reg snd_reg imm =
     TAB @ instruction_to_io instruction @ '' '' @ mips_register_to_io fst_reg @ '', ''
       @ mips_register_to_io snd_reg @ '', '' @ item_to_str imm @ NL"

definition to_code_R_I_R ::
  "mips_instruction_t \<Rightarrow> mips_register_t \<Rightarrow> item_t \<Rightarrow> mips_register_t \<Rightarrow> string" where
  "to_code_R_I_R instruction fst_reg imm snd_reg =
     TAB @ instruction_to_io instruction @ '' '' @ mips_register_to_io fst_reg @ '', ''
       @ item_to_str imm @ ''('' @ mips_register_to_io snd_reg @ '')'' @ NL"

definition to_code_R_I :: "mips_instruction_t \<Rightarrow> mips_register_t \<Rightarrow> item_t \<Rightarrow> string" where
  "to_code_R_I instruction reg imm =
     TAB @ instruction_to_io instruction @ '' '' @ mips_register_to_io reg @ '', ''
       @ item_to_str imm @ NL"

definition to_code_R :: "mips_instruction_t \<Rightarrow> mips_register_t \<Rightarrow> string" where
  "to_code_R instruction reg =
     TAB @ instruction_to_io instruction @ '' '' @ mips_register_to_io reg @ NL"

primrec label_kind_to_io :: "mips_label_t \<Rightarrow> string" where
  "label_kind_to_io L_FUNC = ''FUNC''"
| "label_kind_to_io L_NEXT = ''NEXT''"
| "label_kind_to_io L_FUNCEND = ''FUNCEND''"
| "label_kind_to_io L_STRING = ''STRING''"
| "label_kind_to_io L_ELSE = ''ELSE''"
| "label_kind_to_io L_END = ''END''"
| "label_kind_to_io L_BEGIN_CYCLE = ''BEGIN_CYCLE''"

definition emit_label :: "label \<Rightarrow> string" where
  "emit_label lbl = label_kind_to_io (lbl_kind lbl) @ size_to_str (lbl_num lbl)"

definition emit_label_declaration :: "label \<Rightarrow> string" where
  "emit_label_declaration lbl = emit_label lbl @ '':'' @ NL"

definition emit_unconditional_branch :: "label \<Rightarrow> string" where
  "emit_unconditional_branch lbl = TAB @ instruction_to_io IC_MIPS_J @ '' '' @ emit_label lbl @ NL"

subsection \<open>The tables behind \<^verbatim>\<open>info->sx\<close>\<close>

text \<open>
  The type and identifier tables, the type constants and the predicates on types are
  declared in headers that are not part of these sources. They are the fields of the
  record \<open>sx_tables\<close>, a parameter of every function that consults them; \<open>printf_f\<close> is
  the text \<^verbatim>\<open>printf\<close> writes for \<^verbatim>\<open>%f\<close>. The constants of a \<^verbatim>\<open>switch\<close> are compared in the
  order of its case labels.
\<close>

record sx_tables =
  TYPE_BOOLEAN :: item_t
  TYPE_CHARACTER :: item_t
  TYPE_INTEGER :: item_t
  TYPE_FLOATING :: item_t
  TYPE_ARRAY :: item_t
  type_is_floating :: "item_t \<Rightarrow> bool"
  type_is_array :: "item_t \<Rightarrow> bool"
  type_is_structure :: "item_t \<Rightarrow> bool"
  type_is_scalar :: "item_t \<Rightarrow> bool"
  type_get_class :: "item_t \<Rightarrow> item_t"
  type_size :: "item_t \<Rightarrow> nat"
  type_structure_get_member_amount :: "item_t \<Rightarrow> nat"
  type_structure_get_member_type :: "item_t \<Rightarrow> nat \<Rightarrow> item_t"
  type_array_get_element_type :: "item_t \<Rightarrow> item_t"
  type_function_get_parameter_amount :: "item_t \<Rightarrow> nat"
  ident_get_type :: "nat \<Rightarrow> item_t"
  ident_is_local :: "nat \<Rightarrow> bool"
  ident_get_spelling :: "nat \<Rightarrow> string"
  ITEM_MAX :: item_t
  printf_f :: "double \<Rightarrow> string"

definition rvalue_one :: "sx_tables \<Rightarrow> rvalue" where
  "rvalue_one sx =
     \<lparr>kind = RVALUE_KIND_CONST, type = TYPE_INTEGER sx, from_lvalue = False, reg_num = 1, float_val = 0\<rparr>"

definition rvalue_negative_one :: "sx_tables \<Rightarrow> rvalue" where
  "rvalue_negative_one sx =
     \<lparr>kind = RVALUE_KIND_CONST, type = TYPE_INTEGER sx, from_lvalue = False, reg_num = - 1, float_val = 0\<rparr>"

definition rvalue_const_to_io :: "sx_tables \<Rightarrow> rvalue \<Rightarrow> string" where
  "rvalue_const_to_io sx rval =
     (if type rval = TYPE_BOOLEAN sx \<or> type rval = TYPE_CHARACTER sx \<or> type rval = TYPE_INTEGER sx
      then item_to_str (int_val rval)
      else if type rval = TYPE_FLOATING sx then printf_f sx (float_val rval)
      else [])"

definition rvalue_to_io :: "sx_tables \<Rightarrow> rvalue \<Rightarrow> string option" where
  "rvalue_to_io sx rval =
     (if kind rval = RVALUE_KIND_VOID then None
      else if kind rval = RVALUE_KIND_CONST then Some (rvalue_const_to_io sx rval)
      else Some (mips_register_to_io (reg_num rval)))"

text \<open>The register rvalue that the source builds with a designated initialiser.\<close>

definition register_rvalue :: "mips_register_t \<Rightarrow> item_t \<Rightarrow> bool \<Rightarrow> rvalue" where
  "register_rvalue reg ty from_lv =
     \<lparr>kind = RVALUE_KIND_REGISTER, type = ty, from_lvalue = from_lv, reg_num = reg, float_val = 0\<rparr>"

definition rvalue_void :: rvalue where
  "rvalue_void =
     \<lparr>kind = RVALUE_KIND_VOID, type = 0, from_lvalue = False, reg_num = 0, float_val = 0\<rparr>"

text \<open>
  \<^verbatim>\<open>type_is_floating(t) ? get_float_register(info) : get_register(info)\<close>, which the source
  writes out at each place it takes a register for a value of type \<open>t\<close>.
\<close>

definition get_register_for :: "sx_tables \<Rightarrow> item_t \<Rightarrow> information \<Rightarrow> (mips_register_t \<times> information) option" where
  "get_register_for sx ty info =
     (if type_is_floating sx ty then get_float_register info else get_register info)"

subsection \<open>Loads and stores\<close>

definition emit_store_rvalue_to_rvalue :: "sx_tables \<Rightarrow> rvalue \<Rightarrow> rvalue \<Rightarrow> string option" where
  "emit_store_rvalue_to_rvalue sx destination source =
     (if kind source = RVALUE_KIND_VOID \<or> kind destination \<noteq> RVALUE_KIND_REGISTER then None
      else if kind source = RVALUE_KIND_CONST then
        do {
          d \<leftarrow> rvalue_to_io sx destination;
          s \<leftarrow> rvalue_to_io sx source;
          Some (TAB @ instruction_to_io (if type_is_floating sx (type source) then IC_MIPS_LI_S else IC_MIPS_LI)
                @ '' '' @ d @ '', '' @ s @ NL)
        }
      else if reg_num destination = reg_num source then
        Some (TAB @ ''# stays in register'' @ mips_register_to_io (reg_num destination) @ NL)
      else
        (let c = type_get_class sx (type source) in
         if c = TYPE_BOOLEAN sx \<or> c = TYPE_CHARACTER sx \<or> c = TYPE_INTEGER sx \<or> c = TYPE_ARRAY sx then
           do {
             d \<leftarrow> rvalue_to_io sx destination;
             s \<leftarrow> rvalue_to_io sx source;
             Some (TAB @ instruction_to_io IC_MIPS_MOVE @ '' '' @ d @ '', '' @ s @ NL)
           }
         else if c = TYPE_FLOATING sx then
           do {
             d \<leftarrow> rvalue_to_io sx destination;
             s \<leftarrow> rvalue_to_io sx source;
             Some (TAB @ instruction_to_io IC_MIPS_MOV_S @ '' '' @ d @ '', '' @ s @ NL)
           }
         else Some []))"

text \<open>
  \<^verbatim>\<open>emit_load_of_lvalue\<close>. The source computes the instruction (\<^verbatim>\<open>l.s\<close> or \<^verbatim>\<open>lw\<close>) and then
  writes \<^verbatim>\<open>IC_MIPS_L_S\<close> in both cases; so does the model.
\<close>

definition emit_load_of_lvalue :: "sx_tables \<Rightarrow> lvalue \<Rightarrow> information \<Rightarrow> (rvalue \<times> information) option" where
  "emit_load_of_lvalue sx lval info =
     (if lkind lval = LVALUE_KIND_REGISTER
      then Some (register_rvalue (displ lval) (ltype lval) FROM_LVALUE, info)
      else
        do {
          (reg, info) \<leftarrow> get_register_for sx (ltype lval) info;
          let result = register_rvalue reg (ltype lval) (\<not> FROM_LVALUE);
          r \<leftarrow> rvalue_to_io sx result;
          let info = uni_printf info
            (TAB @ instruction_to_io IC_MIPS_L_S @ '' '' @ r @ '', '' @ item_to_str (displ lval)
             @ ''('' @ mips_register_to_io (base_reg lval) @ '')'' @ NL);
          Some (result, free_register info (base_reg lval))
        })"

text \<open>
  A \<^verbatim>\<open>for\<close> loop over the indices or nodes \<open>xs\<close>, in order, stopping when the body aborts.
\<close>

primrec for_loop :: "'a list \<Rightarrow> ('a \<Rightarrow> 's \<Rightarrow> 's option) \<Rightarrow> 's \<Rightarrow> 's option" where
  "for_loop [] body s = Some s"
| "for_loop (x # xs) body s = (case body x s of None \<Rightarrow> None | Some s' \<Rightarrow> for_loop xs body s')"

lemma for_loop_cong [fundef_cong]:
  "xs = ys \<Longrightarrow> s = t \<Longrightarrow> (\<And>x u. x \<in> set ys \<Longrightarrow> f x u = g x u)
   \<Longrightarrow> for_loop xs f s = for_loop ys g t"
proof (induction ys arbitrary: xs s t)
  case Nil
  then show ?case by simp
next
  case (Cons y ys)
  then have "for_loop ys f u = for_loop ys g u" for u
    by simp
  with Cons.prems show ?case
    by (simp split: option.split)
qed

text \<open>
  \<^verbatim>\<open>emit_store_of_rvalue\<close> calls itself for each member of a structure, so its recursion
  follows the type table. The first argument bounds the nesting of structures; \<open>None\<close> is
  an aborted run or a nesting deeper than the bound.
\<close>

fun emit_store_of_rvalue ::
  "nat \<Rightarrow> sx_tables \<Rightarrow> rvalue \<Rightarrow> lvalue \<Rightarrow> information \<Rightarrow> (lvalue \<times> information) option" where
  "emit_store_of_rvalue 0 sx rval lval info = None"
| "emit_store_of_rvalue (Suc fuel) sx rval lval info =
     (if kind rval = RVALUE_KIND_VOID then None
      else
        do {
          (rval, info) \<leftarrow>
            (if kind rval = RVALUE_KIND_CONST then
               do {
                 (reg, info) \<leftarrow> get_register_for sx (type rval) info;
                 let tmp_rval = rval;
                 let rval = register_rvalue reg (type tmp_rval) (\<not> FROM_LVALUE);
                 text \<leftarrow> emit_store_rvalue_to_rvalue sx rval tmp_rval;
                 Some (rval, uni_printf info text)
               }
             else Some (rval, info));
          let info = uni_printf info TAB;
          if lkind lval = LVALUE_KIND_REGISTER then
            do {
              src \<leftarrow> rvalue_to_io sx rval;
              let info = uni_printf info
                (instruction_to_io (if type_is_floating sx (type rval) then IC_MIPS_MOV_S else IC_MIPS_MOVE)
                 @ '' '' @ src @ '', '');
              (loaded, info) \<leftarrow> emit_load_of_lvalue sx lval info;
              dst \<leftarrow> rvalue_to_io sx loaded;
              Some (lval, uni_printf info (dst @ NL))
            }
          else if \<not> type_is_structure sx (type_get_class sx (ltype lval))
                  \<and> \<not> type_is_array sx (type_get_class sx (ltype lval)) then
            do {
              src \<leftarrow> rvalue_to_io sx rval;
              Some (lval, uni_printf info
                (instruction_to_io (if type_is_floating sx (type rval) then IC_MIPS_S_S else IC_MIPS_SW)
                 @ '' '' @ src @ '', '' @ item_to_str (displ lval)
                 @ ''('' @ mips_register_to_io (base_reg lval) @ '')'' @ NL))
            }
          else
            do {
              info \<leftarrow> for_loop [0 ..< type_structure_get_member_amount sx (ltype lval)]
                (\<lambda>i info.
                   do {
                     let member_type = type_structure_get_member_type sx (ltype lval) i;
                     let member_size = int WORD_LENGTH * int (type_size sx member_type)
                           - (if type_is_floating sx member_type then int WORD_LENGTH else 0);
                     (displ_rval, info) \<leftarrow> emit_load_of_lvalue sx
                        \<lparr>lkind = LVALUE_KIND_STACK, base_reg = reg_num rval,
                         displ = int i * member_size, ltype = member_type\<rparr> info;
                     (_, info) \<leftarrow> emit_store_of_rvalue fuel sx displ_rval
                        \<lparr>lkind = LVALUE_KIND_STACK, base_reg = base_reg lval,
                         displ = displ lval + int i * member_size, ltype = member_type\<rparr> info;
                     Some (free_rvalue info displ_rval)
                   }) info;
              Some (lval, info)
            }
        })"

subsection \<open>Binary operations\<close>

text \<open>
  The enumeration \<^verbatim>\<open>binary_t\<close> is declared in \<^verbatim>\<open>operations.h\<close>, which is not part of these
  sources; the datatype has the constants that \<^verbatim>\<open>mipsgen.c\<close> names.
\<close>

datatype binary_t =
    BIN_MUL | BIN_DIV | BIN_REM | BIN_ADD | BIN_SUB | BIN_SHL | BIN_SHR
  | BIN_LT | BIN_GT | BIN_LE | BIN_GE | BIN_EQ | BIN_NE
  | BIN_AND | BIN_XOR | BIN_OR | BIN_LOG_AND | BIN_LOG_OR
  | BIN_ASSIGN | BIN_MUL_ASSIGN | BIN_DIV_ASSIGN | BIN_REM_ASSIGN | BIN_ADD_ASSIGN
  | BIN_SUB_ASSIGN | BIN_SHL_ASSIGN | BIN_SHR_ASSIGN | BIN_AND_ASSIGN | BIN_XOR_ASSIGN
  | BIN_OR_ASSIGN

definition get_bin_instruction :: "binary_t \<Rightarrow> bool \<Rightarrow> mips_instruction_t" where
  "get_bin_instruction operation_type is_imm =
     (case operation_type of
        BIN_ADD_ASSIGN \<Rightarrow> (if is_imm then IC_MIPS_ADDI else IC_MIPS_ADD)
      | BIN_ADD \<Rightarrow> (if is_imm then IC_MIPS_ADDI else IC_MIPS_ADD)
      | BIN_SUB_ASSIGN \<Rightarrow> (if is_imm then IC_MIPS_ADDI else IC_MIPS_SUB)
      | BIN_SUB \<Rightarrow> (if is_imm then IC_MIPS_ADDI else IC_MIPS_SUB)
      | BIN_MUL_ASSIGN \<Rightarrow> IC_MIPS_MUL
      | BIN_MUL \<Rightarrow> IC_MIPS_MUL
      | BIN_DIV_ASSIGN \<Rightarrow> IC_MIPS_DIV
      | BIN_DIV \<Rightarrow> IC_MIPS_DIV
      | BIN_REM_ASSIGN \<Rightarrow> IC_MIPS_MOD
      | BIN_REM \<Rightarrow> IC_MIPS_MOD
      | BIN_SHL_ASSIGN \<Rightarrow> (if is_imm then IC_MIPS_SLL else IC_MIPS_SLLV)
      | BIN_SHL \<Rightarrow> (if is_imm then IC_MIPS_SLL else IC_MIPS_SLLV)
      | BIN_SHR_ASSIGN \<Rightarrow> (if is_imm then IC_MIPS_SRA else IC_MIPS_SRAV)
      | BIN_SHR \<Rightarrow> (if is_imm then IC_MIPS_SRA else IC_MIPS_SRAV)
      | BIN_AND_ASSIGN \<Rightarrow> (if is_imm then IC_MIPS_ANDI else IC_MIPS_AND)
      | BIN_AND \<Rightarrow> (if is_imm then IC_MIPS_ANDI else IC_MIPS_AND)
      | BIN_XOR_ASSIGN \<Rightarrow> (if is_imm then IC_MIPS_XORI else IC_MIPS_XOR)
      | BIN_XOR \<Rightarrow> (if is_imm then IC_MIPS_XORI else IC_MIPS_XOR)
      | BIN_OR_ASSIGN \<Rightarrow> (if is_imm then IC_MIPS_ORI else IC_MIPS_OR)
      | BIN_OR \<Rightarrow> (if is_imm then IC_MIPS_ORI else IC_MIPS_OR)
      | BIN_EQ \<Rightarrow> IC_MIPS_BEQ
      | BIN_NE \<Rightarrow> IC_MIPS_BNE
      | BIN_GT \<Rightarrow> IC_MIPS_BGTZ
      | BIN_LT \<Rightarrow> IC_MIPS_BLTZ
      | BIN_GE \<Rightarrow> IC_MIPS_BGEZ
      | BIN_LE \<Rightarrow> IC_MIPS_BLEZ
      | _ \<Rightarrow> IC_MIPS_NOP)"

text \<open>The case labels \<^verbatim>\<open>BIN_LT\<close> ... \<^verbatim>\<open>BIN_NE\<close> of the two \<^verbatim>\<open>switch\<close> statements.\<close>

definition is_comparison :: "binary_t \<Rightarrow> bool" where
  "is_comparison operation \<longleftrightarrow>
     operation = BIN_LT \<or> operation = BIN_GT \<or> operation = BIN_LE
     \<or> operation = BIN_GE \<or> operation = BIN_EQ \<or> operation = BIN_NE"

text \<open>The \<^verbatim>\<open>if\<close> chain that picks the branch instruction of a comparison.\<close>

definition comparison_branch :: "binary_t \<Rightarrow> mips_instruction_t" where
  "comparison_branch operation =
     (if operation = BIN_GT then IC_MIPS_BGTZ
      else if operation = BIN_LT then IC_MIPS_BLTZ
      else if operation = BIN_GE then IC_MIPS_BGEZ
      else if operation = BIN_LE then IC_MIPS_BLEZ
      else if operation = BIN_EQ then IC_MIPS_BEQ
      else IC_MIPS_BNE)"

text \<open>
  The guard of the register-and-constant branch that loads the constant into a register
  first: as the source writes it, with \<^verbatim>\<open>BIN_DIV\<close> twice, and with the second occurrence
  taken out.
\<close>

definition materialize_guard :: "binary_t \<Rightarrow> bool" where
  "materialize_guard operation \<longleftrightarrow>
     (operation = BIN_SUB) \<or> (operation = BIN_DIV) \<or> (operation = BIN_MUL)
     \<or> (operation = BIN_REM) \<or> (operation = BIN_DIV)"

definition materialize_guard_once :: "binary_t \<Rightarrow> bool" where
  "materialize_guard_once operation \<longleftrightarrow>
     (operation = BIN_SUB) \<or> (operation = BIN_DIV) \<or> (operation = BIN_MUL)
     \<or> (operation = BIN_REM)"

text \<open>
  \<^verbatim>\<open>emit_binary_operation\<close>, with the guard of the register-and-constant branch as its
  first argument. The function calls itself once, for \<^verbatim>\<open>BIN_SUB\<close> with a constant, and
  then with \<^verbatim>\<open>BIN_MUL\<close>. In the first comparison branch the source writes the labels with
  \<^verbatim>\<open>emit_label\<close> where a jump and a declaration would be expected, and writes no line
  break after the branch instruction; the model writes what the source writes.
\<close>

function emit_binary_operation_guarded ::
  "(binary_t \<Rightarrow> bool) \<Rightarrow> sx_tables \<Rightarrow> information \<Rightarrow> rvalue \<Rightarrow> rvalue \<Rightarrow> binary_t
     \<Rightarrow> (rvalue \<times> information) option" where
  "emit_binary_operation_guarded guard sx info rval1 rval2 operation =
     (if operation = BIN_LOG_AND \<or> operation = BIN_LOG_OR
         \<or> kind rval1 = RVALUE_KIND_VOID \<or> kind rval2 = RVALUE_KIND_VOID then None
      else if kind rval1 = RVALUE_KIND_REGISTER \<and> kind rval2 = RVALUE_KIND_REGISTER then
        do {
          (result, freeing_rvalue, info) \<leftarrow>
            (if \<not> from_lvalue rval1 \<and> \<not> from_lvalue rval2 then
               (if reg_num rval1 > reg_num rval2 then Some (reg_num rval2, rval1, info)
                else Some (reg_num rval1, rval2, info))
             else if from_lvalue rval1 \<and> \<not> from_lvalue rval2 then Some (reg_num rval2, rvalue_void, info)
             else if from_lvalue rval2 \<and> \<not> from_lvalue rval1 then Some (reg_num rval1, rvalue_void, info)
             else
               do {
                 (reg, info) \<leftarrow> get_register_for sx (type rval1) info;
                 Some (reg, rvalue_void, info)
               });
          let result_rvalue = register_rvalue result (type rval1) (\<not> FROM_LVALUE);
          res \<leftarrow> rvalue_to_io sx result_rvalue;
          r1 \<leftarrow> rvalue_to_io sx rval1;
          r2 \<leftarrow> rvalue_to_io sx rval2;
          let info =
            (if is_comparison operation then
               (let curr_label_num = label_num info;
                    info = info\<lparr>label_num := label_num info + 1\<rparr>;
                    label_else = \<lparr>lbl_kind = L_ELSE, lbl_num = curr_label_num\<rparr>;
                    label_end = \<lparr>lbl_kind = L_END, lbl_num = curr_label_num\<rparr>
                in uni_printf info
                  (TAB @ instruction_to_io IC_MIPS_SUB @ '' '' @ res @ '', '' @ r1 @ '', '' @ r2 @ NL
                   @ TAB @ instruction_to_io (comparison_branch operation) @ '' '' @ res @ '', ''
                   @ emit_label label_else
                   @ TAB @ instruction_to_io IC_MIPS_LI @ '' '' @ res @ '', 1'' @ NL
                   @ emit_label label_end
                   @ emit_label label_else
                   @ TAB @ instruction_to_io IC_MIPS_LI @ '' '' @ res @ '', 0'' @ NL
                   @ emit_label_declaration label_end
                   @ NL))
             else uni_printf info
               (TAB @ instruction_to_io (get_bin_instruction operation False) @ '' '' @ res
                @ '', '' @ r1 @ '', '' @ r2 @ NL));
          Some (result_rvalue, free_rvalue info freeing_rvalue)
        }
      else
        do {
          let (rval1, rval2) = (if kind rval2 \<noteq> RVALUE_KIND_CONST then (rval2, rval1) else (rval1, rval2));
          (result, info) \<leftarrow>
            (if from_lvalue rval1 then get_register_for sx (type rval1) info
             else Some (reg_num rval1, info));
          let result_rvalue = register_rvalue result (type rval1) (\<not> FROM_LVALUE);
          res \<leftarrow> rvalue_to_io sx result_rvalue;
          r1 \<leftarrow> rvalue_to_io sx rval1;
          info \<leftarrow>
            (if is_comparison operation then
               do {
                 let curr_label_num = label_num info;
                 let info = info\<lparr>label_num := label_num info + 1\<rparr>;
                 let label_else = \<lparr>lbl_kind = L_ELSE, lbl_num = curr_label_num\<rparr>;
                 let label_end = \<lparr>lbl_kind = L_END, lbl_num = curr_label_num\<rparr>;
                 let tmp_rval = rval2;
                 (reg, info) \<leftarrow> get_register_for sx (type tmp_rval) info;
                 let rval2 = register_rvalue reg (type tmp_rval) (\<not> FROM_LVALUE);
                 text \<leftarrow> emit_store_rvalue_to_rvalue sx rval2 tmp_rval;
                 Some (uni_printf info
                   (text
                    @ TAB @ instruction_to_io IC_MIPS_SUB @ '' '' @ res @ '', '' @ r1 @ '', ''
                    @ mips_register_to_io (reg_num rval2) @ NL
                    @ TAB @ instruction_to_io (comparison_branch operation) @ '' '' @ res @ '', ''
                    @ emit_label label_else
                    @ TAB @ instruction_to_io IC_MIPS_LI @ '' '' @ res @ '', 1'' @ NL
                    @ emit_unconditional_branch label_end
                    @ emit_label label_else
                    @ TAB @ instruction_to_io IC_MIPS_LI @ '' '' @ res @ '', 0'' @ NL
                    @ emit_label_declaration label_end
                    @ NL))
               }
             else
               do {
                 (rval2, info) \<leftarrow>
                   (if guard operation then
                      do {
                        let tmp_rval = rval2;
                        (reg, info) \<leftarrow> get_register_for sx (type tmp_rval) info;
                        let rval2 = register_rvalue reg (type tmp_rval) (\<not> FROM_LVALUE);
                        text \<leftarrow> emit_store_rvalue_to_rvalue sx rval2 tmp_rval;
                        Some (rval2, uni_printf info text)
                      }
                    else Some (rval2, info));
                 info \<leftarrow>
                   (if operation = BIN_SUB then
                      do {
                        (_, info) \<leftarrow> emit_binary_operation_guarded guard sx info rval2
                                       (rvalue_negative_one sx) BIN_MUL;
                        Some info
                      }
                    else Some info);
                 r2 \<leftarrow> rvalue_to_io sx rval2;
                 let info = uni_printf info
                   (TAB @ instruction_to_io (get_bin_instruction operation True) @ '' '' @ res
                    @ '', '' @ r1 @ '', '' @ r2 @ NL);
                 Some (free_rvalue info rval2)
               });
          Some (result_rvalue, free_rvalue info rvalue_void)
        })"
  by pat_completeness auto
termination
  by (relation "measure (\<lambda>(guard, sx, info, rval1, rval2, operation). if operation = BIN_SUB then 1 else 0)")
     auto

declare emit_binary_operation_guarded.simps [simp del]

definition emit_binary_operation ::
  "sx_tables \<Rightarrow> information \<Rightarrow> rvalue \<Rightarrow> rvalue \<Rightarrow> binary_t \<Rightarrow> (rvalue \<times> information) option" where
  "emit_binary_operation = emit_binary_operation_guarded materialize_guard"

definition emit_binary_operation_once ::
  "sx_tables \<Rightarrow> information \<Rightarrow> rvalue \<Rightarrow> rvalue \<Rightarrow> binary_t \<Rightarrow> (rvalue \<times> information) option" where
  "emit_binary_operation_once = emit_binary_operation_guarded materialize_guard_once"

subsection \<open>The syntax tree\<close>

text \<open>
  The tree is read through the accessors of \<^verbatim>\<open>AST.h\<close> and \<^verbatim>\<open>tree.h\<close>, which are not part of
  these sources. A node is a value of a datatype with one constructor for each class
  the emitter distinguishes; the arguments of a constructor are what the accessors of
  that class return. An expression node carries its class, its type, whether it is an
  lvalue, the value of a literal, and its subexpressions. \<^verbatim>\<open>STMT_RETURN\<close> carries the
  value \<^verbatim>\<open>expression_get_type\<close> returns for the statement's node, which the source reads.
\<close>

datatype expression_t =
    EXPR_IDENTIFIER | EXPR_SUBSCRIPT | EXPR_MEMBER | EXPR_UNARY | EXPR_CAST | EXPR_LITERAL
  | EXPR_CALL | EXPR_BINARY | EXPR_ASSIGNMENT | EXPR_TERNARY | EXPR_INLINE
  | EXPR_INITIALIZER | EXPR_EMPTY_BOUND | EXPR_INVALID

datatype expression =
  Expression (expression_get_class: expression_t) (expression_get_type: item_t)
    (expression_is_lvalue: bool) (expression_literal_get_integer: item_t)
    (expression_literal_get_floating: double) (expression_subexprs: "expression list")

datatype statement =
    STMT_DECL "declaration_t list"
  | STMT_CASE
  | STMT_DEFAULT
  | STMT_COMPOUND "statement list"
  | STMT_EXPR expression
  | STMT_NULL
  | STMT_IF expression statement "statement option"
  | STMT_SWITCH
  | STMT_WHILE expression statement
  | STMT_DO statement expression
  | STMT_FOR "statement option" "expression option" "expression option" statement
  | STMT_CONTINUE
  | STMT_BREAK
  | STMT_RETURN item_t "expression option"
  | STMT_OTHER
and declaration_t =
    DECL_VAR nat "expression list" "expression option"
  | DECL_FUNC nat "nat list" statement
  | DECL_OTHER

subsection \<open>Expressions\<close>

text \<open>
  The emitter of expressions (\<^verbatim>\<open>emit_expression\<close>, \<^verbatim>\<open>emit_lvalue\<close> and the functions below
  them) is a parameter of the emitter of statements and declarations: a pair of
  functions from a node and a state to a value and a state, \<open>None\<close> for an aborted run.
\<close>

record expr_emitters =
  emit_expression :: "expression \<Rightarrow> information \<Rightarrow> (rvalue \<times> information) option"
  emit_lvalue :: "expression \<Rightarrow> information \<Rightarrow> (lvalue \<times> information) option"

definition emit_literal_expression :: "sx_tables \<Rightarrow> expression \<Rightarrow> rvalue" where
  "emit_literal_expression sx nd =
     (let ty = expression_get_type nd; c = type_get_class sx ty in
      if c = TYPE_BOOLEAN sx then
        \<lparr>kind = RVALUE_KIND_CONST, type = ty, from_lvalue = \<not> FROM_LVALUE,
         reg_num = (if expression_literal_get_integer nd \<noteq> 0 then 1 else 0), float_val = 0\<rparr>
      else if c = TYPE_CHARACTER sx \<or> c = TYPE_INTEGER sx then
        \<lparr>kind = RVALUE_KIND_CONST, type = ty, from_lvalue = \<not> FROM_LVALUE,
         reg_num = expression_literal_get_integer nd, float_val = 0\<rparr>
      else if c = TYPE_FLOATING sx then
        \<lparr>kind = RVALUE_KIND_CONST, type = ty, from_lvalue = \<not> FROM_LVALUE,
         reg_num = 0, float_val = expression_literal_get_floating nd\<rparr>
      else if c = TYPE_ARRAY sx then
        \<lparr>kind = RVALUE_KIND_CONST, type = ty, from_lvalue = \<not> FROM_LVALUE,
         reg_num = expression_literal_get_integer nd, float_val = 0\<rparr>
      else rvalue_void)"

definition emit_conditional_branch :: "sx_tables \<Rightarrow> rvalue \<Rightarrow> label \<Rightarrow> string option" where
  "emit_conditional_branch sx val lbl =
     (if kind val = RVALUE_KIND_CONST then
        (let is_zero = (if type_is_floating sx (type_get_class sx (type val))
                        then float_val val = 0 else int_val val = 0)
         in if is_zero then Some (emit_unconditional_branch lbl) else Some [])
      else
        do {
          v \<leftarrow> rvalue_to_io sx val;
          Some (TAB @ instruction_to_io IC_MIPS_BEQ @ '' '' @ v @ '', $0, '' @ emit_label lbl @ NL)
        })"

definition emit_void_expression ::
  "expr_emitters \<Rightarrow> expression \<Rightarrow> information \<Rightarrow> (rvalue \<times> information) option" where
  "emit_void_expression ee nd info =
     (if expression_is_lvalue nd then
        do {
          (_, info) \<leftarrow> emit_lvalue ee nd info;
          Some (rvalue_void, info)
        }
      else
        do {
          (result, info) \<leftarrow> emit_expression ee nd info;
          Some (rvalue_void, free_rvalue info result)
        })"

definition emit_boolean_expression ::
  "sx_tables \<Rightarrow> expr_emitters \<Rightarrow> expression \<Rightarrow> information \<Rightarrow> (rvalue \<times> information) option" where
  "emit_boolean_expression sx ee nd info =
     do {
       (val, info) \<leftarrow> emit_expression ee nd info;
       if \<not> type_is_scalar sx (type val) then None
       else if \<not> type_is_floating sx (type val) then Some (val, info)
       else if kind val = RVALUE_KIND_CONST then
         Some (\<lparr>kind = RVALUE_KIND_CONST, type = TYPE_INTEGER sx, from_lvalue = False,
                reg_num = (if float_val val \<noteq> 0 then 1 else 0), float_val = 0\<rparr>, info)
       else
         do {
           (reg, info) \<leftarrow> get_register info;
           let result = register_rvalue reg (TYPE_INTEGER sx) (\<not> FROM_LVALUE);
           let info = uni_printf info
             (to_code_2R IC_MIPS_CVT_W_S (reg_num val) (reg_num val)
              @ to_code_2R IC_MIPS_MFC_1 (reg_num val) (reg_num result));
           Some (result, free_rvalue info val)
         }
     }"

subsection \<open>Statements\<close>

text \<open>
  The emitters of the statements that contain statements take the emitter of a
  substatement, \<open>emit_stmt\<close>, as their first argument; \<open>emit_statement\<close> below passes
  itself. The congruence rules say on which nodes each of them calls \<open>emit_stmt\<close>.
\<close>

definition emit_compound_statement ::
  "(statement \<Rightarrow> information \<Rightarrow> information option) \<Rightarrow> statement list \<Rightarrow> information
     \<Rightarrow> information option" where
  "emit_compound_statement emit_stmt substmts info =
     do {
       let scope_displacement = info_displ info;
       info \<leftarrow> for_loop substmts emit_stmt info;
       Some (info\<lparr>info_displ := scope_displacement\<rparr>)
     }"

definition emit_if_statement ::
  "(statement \<Rightarrow> information \<Rightarrow> information option) \<Rightarrow> sx_tables \<Rightarrow> expr_emitters
     \<Rightarrow> expression \<Rightarrow> statement \<Rightarrow> statement option \<Rightarrow> information \<Rightarrow> information option" where
  "emit_if_statement emit_stmt sx ee condition then_substmt else_substmt info =
     do {
       (val, info) \<leftarrow> emit_boolean_expression sx ee condition info;
       let label_num = label_num info;
       let info = info\<lparr>label_num := label_num + 1\<rparr>;
       let label_else = \<lparr>lbl_kind = L_ELSE, lbl_num = label_num\<rparr>;
       let label_end = \<lparr>lbl_kind = L_END, lbl_num = label_num\<rparr>;
       let has_else = (else_substmt \<noteq> None);
       text \<leftarrow> emit_conditional_branch sx val (if has_else then label_else else label_end);
       info \<leftarrow> emit_stmt then_substmt (uni_printf info text);
       info \<leftarrow>
         (case else_substmt of
            Some els \<Rightarrow>
              emit_stmt els
                (uni_printf info (emit_unconditional_branch label_end @ emit_label_declaration label_else))
          | None \<Rightarrow> Some info);
       Some (uni_printf info (emit_label_declaration label_end))
     }"

definition emit_while_statement ::
  "(statement \<Rightarrow> information \<Rightarrow> information option) \<Rightarrow> sx_tables \<Rightarrow> expr_emitters
     \<Rightarrow> expression \<Rightarrow> statement \<Rightarrow> information \<Rightarrow> information option" where
  "emit_while_statement emit_stmt sx ee condition body info =
     do {
       let label_num = label_num info;
       let info = info\<lparr>label_num := label_num + 1\<rparr>;
       let label_begin = \<lparr>lbl_kind = L_BEGIN_CYCLE, lbl_num = label_num\<rparr>;
       let label_end = \<lparr>lbl_kind = L_END, lbl_num = label_num\<rparr>;
       let old_continue = label_continue info;
       let old_break = label_break info;
       let info = info\<lparr>label_continue := label_begin, label_break := label_end\<rparr>;
       let info = uni_printf info (emit_label_declaration label_begin);
       (val, info) \<leftarrow> emit_boolean_expression sx ee condition info;
       text \<leftarrow> emit_conditional_branch sx val label_end;
       info \<leftarrow> emit_stmt body (uni_printf info text);
       let info = uni_printf info (emit_unconditional_branch label_begin @ emit_label_declaration label_end);
       Some (info\<lparr>label_continue := old_continue, label_break := old_break\<rparr>)
     }"

definition emit_do_statement ::
  "(statement \<Rightarrow> information \<Rightarrow> information option) \<Rightarrow> sx_tables \<Rightarrow> expr_emitters
     \<Rightarrow> statement \<Rightarrow> expression \<Rightarrow> information \<Rightarrow> information option" where
  "emit_do_statement emit_stmt sx ee body condition info =
     do {
       let label_num = label_num info;
       let info = info\<lparr>label_num := label_num + 1\<rparr>;
       let label_begin = \<lparr>lbl_kind = L_BEGIN_CYCLE, lbl_num = label_num\<rparr>;
       let info = uni_printf info (emit_label_declaration label_begin);
       let label_condition = \<lparr>lbl_kind = L_NEXT, lbl_num = label_num\<rparr>;
       let label_end = \<lparr>lbl_kind = L_END, lbl_num = label_num\<rparr>;
       let old_continue = label_continue info;
       let old_break = label_break info;
       let info = info\<lparr>label_continue := label_condition, label_break := label_end\<rparr>;
       info \<leftarrow> emit_stmt body info;
       let info = uni_printf info (emit_label_declaration label_condition);
       (val, info) \<leftarrow> emit_boolean_expression sx ee condition info;
       text \<leftarrow> emit_conditional_branch sx val label_begin;
       let info = uni_printf info (text @ emit_label_declaration label_end);
       Some (info\<lparr>label_continue := old_continue, label_break := old_break\<rparr>)
     }"

definition emit_for_statement ::
  "(statement \<Rightarrow> information \<Rightarrow> information option) \<Rightarrow> sx_tables \<Rightarrow> expr_emitters
     \<Rightarrow> statement option \<Rightarrow> expression option \<Rightarrow> expression option \<Rightarrow> statement
     \<Rightarrow> information \<Rightarrow> information option" where
  "emit_for_statement emit_stmt sx ee inition condition increment body info =
     do {
       let scope_displacement = info_displ info;
       info \<leftarrow> (case inition of Some ini \<Rightarrow> emit_stmt ini info | None \<Rightarrow> Some info);
       let label_num = label_num info;
       let info = info\<lparr>label_num := label_num + 1\<rparr>;
       let label_begin = \<lparr>lbl_kind = L_BEGIN_CYCLE, lbl_num = label_num\<rparr>;
       let label_end = \<lparr>lbl_kind = L_END, lbl_num = label_num\<rparr>;
       let old_continue = label_continue info;
       let old_break = label_break info;
       let info = info\<lparr>label_continue := label_begin, label_break := label_end\<rparr>;
       let info = uni_printf info (emit_label_declaration label_begin);
       info \<leftarrow>
         (case condition of
            Some cond \<Rightarrow>
              do {
                (val, info) \<leftarrow> emit_boolean_expression sx ee cond info;
                text \<leftarrow> emit_conditional_branch sx val label_end;
                Some (uni_printf info text)
              }
          | None \<Rightarrow> Some info);
       info \<leftarrow> emit_stmt body info;
       info \<leftarrow>
         (case increment of
            Some inc \<Rightarrow>
              do {
                (_, info) \<leftarrow> emit_void_expression ee inc info;
                Some info
              }
          | None \<Rightarrow> Some info);
       let info = uni_printf info (emit_unconditional_branch label_begin @ emit_label_declaration label_end);
       Some (info\<lparr>label_continue := old_continue, label_break := old_break,
                  info_displ := scope_displacement\<rparr>)
     }"

definition emit_continue_statement :: "information \<Rightarrow> information" where
  "emit_continue_statement info = uni_printf info (emit_unconditional_branch (label_continue info))"

definition emit_break_statement :: "information \<Rightarrow> information" where
  "emit_break_statement info = uni_printf info (emit_unconditional_branch (label_break info))"

text \<open>
  \<^verbatim>\<open>emit_return_statement\<close>. The lvalue of the returned value names the register \<^verbatim>\<open>R_V0\<close>;
  its \<^verbatim>\<open>base_reg\<close>, which the initialiser does not name, is zero.
\<close>

definition emit_return_statement ::
  "sx_tables \<Rightarrow> expr_emitters \<Rightarrow> nat \<Rightarrow> item_t \<Rightarrow> expression option \<Rightarrow> information
     \<Rightarrow> information option" where
  "emit_return_statement sx ee fuel ty expr info =
     do {
       info \<leftarrow>
         (case expr of
            Some e \<Rightarrow>
              do {
                (val, info) \<leftarrow> emit_expression ee e info;
                let return_lval = \<lparr>lkind = LVALUE_KIND_REGISTER, base_reg = 0, displ = R_V0, ltype = ty\<rparr>;
                (_, info) \<leftarrow> emit_store_of_rvalue fuel sx val return_lval info;
                Some (free_rvalue info val)
              }
          | None \<Rightarrow> Some info);
       let label_end = \<lparr>lbl_kind = L_FUNCEND, lbl_num = curr_function_ident info\<rparr>;
       Some (uni_printf info (emit_unconditional_branch label_end))
     }"

subsection \<open>Declarations\<close>

text \<open>
  The hash table of displacements and \<^verbatim>\<open>system_error\<close> belong to other modules. Here
  \<^verbatim>\<open>hash_get\<close> reads a value of a key and gives \<^verbatim>\<open>ITEM_MAX\<close> when there is none, adding a key
  replaces its values, and \<^verbatim>\<open>system_error\<close> counts an error.
\<close>

abbreviation (input) QUOTE :: string where "QUOTE \<equiv> [CHR 0x22]"

definition hash_get :: "sx_tables \<Rightarrow> (nat \<Rightarrow> item_t list option) \<Rightarrow> nat \<Rightarrow> nat \<Rightarrow> item_t" where
  "hash_get sx table key i =
     (case table key of
        Some vs \<Rightarrow> (if i < length vs then vs ! i else ITEM_MAX sx)
      | None \<Rightarrow> ITEM_MAX sx)"

definition system_error :: "information \<Rightarrow> information" where
  "system_error info = info\<lparr>rprt_errors := rprt_errors info + 1\<rparr>"

definition displacements_add :: "sx_tables \<Rightarrow> information \<Rightarrow> nat \<Rightarrow> lvalue \<times> information" where
  "displacements_add sx info identifier =
     (let displacement = max_displ info;
          base = (if ident_is_local sx identifier then R_SP else R_GP);
          ty = ident_get_type sx identifier
      in (\<lparr>lkind = LVALUE_KIND_STACK, base_reg = base, displ = int displacement, ltype = ty\<rparr>,
          info\<lparr>displacements := (displacements info)(identifier \<mapsto> [0, int displacement, base])\<rparr>))"

text \<open>The body of the loop of \<^verbatim>\<open>emit_array_declaration\<close> for a bound that is not empty.\<close>

definition emit_array_bound ::
  "sx_tables \<Rightarrow> expr_emitters \<Rightarrow> nat \<Rightarrow> expression \<Rightarrow> information \<Rightarrow> information option" where
  "emit_array_bound sx ee fuel bound info =
     do {
       (bound_rvalue, info) \<leftarrow> emit_expression ee bound info;
       (bound_rvalue, info) \<leftarrow>
         (if kind bound_rvalue = RVALUE_KIND_CONST then
            do {
              let tmp_rval = bound_rvalue;
              (reg, info) \<leftarrow> get_register_for sx (type tmp_rval) info;
              let bound_rvalue = register_rvalue reg (type tmp_rval) (\<not> FROM_LVALUE);
              text \<leftarrow> emit_store_rvalue_to_rvalue sx bound_rvalue tmp_rval;
              Some (bound_rvalue, uni_printf info text)
            }
          else Some (bound_rvalue, info));
       (_, info) \<leftarrow> emit_store_of_rvalue fuel sx bound_rvalue
          \<lparr>lkind = LVALUE_KIND_STACK, base_reg = R_FP, displ = 0, ltype = TYPE_INTEGER sx\<rparr> info;
       (_, info) \<leftarrow> emit_binary_operation sx info bound_rvalue (rvalue_one sx) BIN_ADD;
       (_, info) \<leftarrow> emit_binary_operation sx info bound_rvalue
          \<lparr>kind = RVALUE_KIND_CONST, type = TYPE_INTEGER sx, from_lvalue = \<not> FROM_LVALUE,
           reg_num = int WORD_LENGTH, float_val = 0\<rparr> BIN_MUL;
       let bound_rvalue = bound_rvalue\<lparr>from_lvalue := FROM_LVALUE\<rparr>;
       (_, info) \<leftarrow> emit_binary_operation sx info
          (register_rvalue R_FP (TYPE_INTEGER sx) (\<not> FROM_LVALUE)) bound_rvalue BIN_SUB;
       Some (free_rvalue info bound_rvalue)
     }"

text \<open>
  The \<^verbatim>\<open>while\<close> loop of \<^verbatim>\<open>emit_array_declaration\<close>: one bound of the node for each
  dimension of the type. The result is the element type the loop ends with. A type with
  more dimensions than the node has bounds reads a bound that does not exist: \<open>None\<close>.
\<close>

fun emit_array_bounds ::
  "sx_tables \<Rightarrow> expr_emitters \<Rightarrow> nat \<Rightarrow> item_t \<Rightarrow> expression list \<Rightarrow> information
     \<Rightarrow> (item_t \<times> information) option" where
  "emit_array_bounds sx ee fuel ty [] info = (if type_is_array sx ty then None else Some (ty, info))"
| "emit_array_bounds sx ee fuel ty (bound # bounds) info =
     (if type_is_array sx ty then
        (let ty = type_array_get_element_type sx ty in
         do {
           info \<leftarrow>
             (if expression_get_class bound = EXPR_EMPTY_BOUND
              then Some (if type_is_array sx ty then system_error info else info)
              else emit_array_bound sx ee fuel bound info);
           emit_array_bounds sx ee fuel ty bounds info
         })
      else Some (ty, info))"

definition emit_array_declaration ::
  "sx_tables \<Rightarrow> expr_emitters \<Rightarrow> nat \<Rightarrow> nat \<Rightarrow> expression list \<Rightarrow> expression option
     \<Rightarrow> information \<Rightarrow> information option" where
  "emit_array_declaration sx ee fuel identifier bounds initializer info =
     do {
       let ty = ident_get_type sx identifier;
       let arr_displ = hash_get sx (displacements info) identifier 1;
       (_, info) \<leftarrow> emit_store_of_rvalue fuel sx
          (register_rvalue R_FP (TYPE_INTEGER sx) (\<not> FROM_LVALUE))
          \<lparr>lkind = LVALUE_KIND_STACK, base_reg = R_SP, displ = arr_displ, ltype = TYPE_ARRAY sx\<rparr> info;
       (ty, info) \<leftarrow> emit_array_bounds sx ee fuel ty bounds info;
       let info = uni_printf info
          (NL @ TAB @ ''# setting up $fp:'' @ NL
           @ to_code_2R_I IC_MIPS_ADDI R_FP R_FP (- int WORD_LENGTH) @ NL);
       case initializer of
         None \<Rightarrow> Some info
       | Some init \<Rightarrow>
           do {
             let displ = hash_get sx (displacements info) identifier 1;
             (array_address_rvalue, info) \<leftarrow> emit_load_of_lvalue sx
                \<lparr>lkind = LVALUE_KIND_STACK, base_reg = R_SP, displ = displ, ltype = ty\<rparr> info;
             info \<leftarrow> for_loop (enumerate 0 (expression_subexprs init))
                (\<lambda>(i, subexpr) info.
                   do {
                     (subexpr_rval, info) \<leftarrow> emit_expression ee subexpr info;
                     (_, info) \<leftarrow> emit_store_of_rvalue fuel sx subexpr_rval
                        \<lparr>lkind = LVALUE_KIND_STACK, base_reg = reg_num array_address_rvalue,
                         displ = - int (i + 1) * int WORD_LENGTH, ltype = expression_get_type subexpr\<rparr> info;
                     Some (free_rvalue info subexpr_rval)
                   }) info;
             Some (free_rvalue info array_address_rvalue)
           }
     }"

definition emit_variable_declaration ::
  "sx_tables \<Rightarrow> expr_emitters \<Rightarrow> nat \<Rightarrow> nat \<Rightarrow> expression list \<Rightarrow> expression option
     \<Rightarrow> information \<Rightarrow> information option" where
  "emit_variable_declaration sx ee fuel identifier bounds initializer info =
     (let (variable, info) = displacements_add sx info identifier;
          ty = ident_get_type sx identifier
      in if type_is_array sx ty then
           (case initializer of
              Some init \<Rightarrow>
                do {
                  (val, info) \<leftarrow> emit_expression ee init info;
                  (_, info) \<leftarrow> emit_store_of_rvalue fuel sx val variable info;
                  Some (free_rvalue info val)
                }
            | None \<Rightarrow> Some info)
         else emit_array_declaration sx ee fuel identifier bounds initializer info)"

subsection \<open>Function definitions\<close>

text \<open>The text that saves the preserved registers, and the text that restores them.\<close>

definition preserved_registers_saving :: string where
  "preserved_registers_saving =
     NL @ TAB @ ''# preserved registers:'' @ NL
     @ to_code_R_I_R IC_MIPS_SW R_RA (- int RA_SIZE) R_FP
     @ to_code_R_I_R IC_MIPS_SW R_SP (- int (RA_SIZE + SP_SIZE)) R_FP
     @ concat (map (\<lambda>i. to_code_R_I_R IC_MIPS_SW (R_S0 + int i)
                      (- int (RA_SIZE + SP_SIZE + (i + 1) * WORD_LENGTH)) R_FP)
                 [0 ..< PRESERVED_REG_AMOUNT])
     @ NL
     @ concat (map (\<lambda>i. to_code_R_I_R IC_MIPS_S_S (R_FS0 + 2 * int i)
                      (- int (RA_SIZE + SP_SIZE + (i + 1) * WORD_LENGTH
                              + PRESERVED_REG_AMOUNT * WORD_LENGTH)) R_FP)
                 [0 ..< PRESERVED_FP_REG_AMOUNT div 2])
     @ concat (map (\<lambda>i. to_code_R_I_R IC_MIPS_SW (R_A0 + int i)
                      (- int (RA_SIZE + SP_SIZE + (i + 1) * WORD_LENGTH
                              + PRESERVED_REG_AMOUNT * WORD_LENGTH
                              + PRESERVED_FP_REG_AMOUNT div 2 * WORD_LENGTH)) R_FP)
                 [0 ..< ARG_REG_AMOUNT])"

definition data_restoring :: "nat \<Rightarrow> string" where
  "data_restoring displ_max =
     NL @ TAB @ ''# data restoring:'' @ NL
     @ to_code_2R_I IC_MIPS_ADDI R_FP R_SP (int (displ_max + FUNC_DISPL_PRESEREVED + WORD_LENGTH))
     @ NL
     @ concat (map (\<lambda>i. to_code_R_I_R IC_MIPS_LW (R_S0 + int i)
                      (- int (RA_SIZE + SP_SIZE + (i + 1) * WORD_LENGTH)) R_FP)
                 [0 ..< PRESERVED_REG_AMOUNT])
     @ NL
     @ concat (map (\<lambda>i. to_code_R_I_R IC_MIPS_L_S (R_FS0 + 2 * int i)
                      (- int (RA_SIZE + SP_SIZE + (i + 1) * WORD_LENGTH + 8 * WORD_LENGTH)) R_FP)
                 [0 ..< PRESERVED_FP_REG_AMOUNT div 2])
     @ concat (map (\<lambda>i. to_code_R_I_R IC_MIPS_LW (R_A0 + int i)
                      (- int (RA_SIZE + SP_SIZE + (i + 1) * WORD_LENGTH + 8 * WORD_LENGTH
                              + 5 * WORD_LENGTH)) R_FP)
                 [0 ..< ARG_REG_AMOUNT])
     @ NL
     @ to_code_R_I_R IC_MIPS_LW R_SP (- int (RA_SIZE + SP_SIZE)) R_FP
     @ to_code_R_I_R IC_MIPS_LW R_RA (- int RA_SIZE) R_FP
     @ to_code_R IC_MIPS_JR R_RA"

text \<open>
  One round of the loop over the parameters; the state of the loop is the generator's
  state and the two counters. A parameter the node does not have, and the two
  \<^verbatim>\<open>assert(false)\<close>, are \<open>None\<close>.
\<close>

definition emit_function_parameter ::
  "sx_tables \<Rightarrow> nat list \<Rightarrow> nat \<Rightarrow> information \<times> nat \<times> nat \<Rightarrow> (information \<times> nat \<times> nat) option" where
  "emit_function_parameter sx params i st =
     (case st of (info, gpr_count, fp_count) \<Rightarrow>
        if \<not> i < length params then None
        else
          (let ident = params ! i;
               info = uni_printf info
                 (TAB @ ''# parameter '' @ QUOTE @ ident_get_spelling sx ident @ QUOTE @ '' '')
           in if \<not> type_is_floating sx (ident_get_type sx ident) then
                (if i < ARG_REG_AMOUNT then
                   (let curr_reg = R_A0 + int gpr_count;
                        info = uni_printf info (''is in register '' @ mips_register_to_io curr_reg @ NL)
                    in Some (info\<lparr>displacements := (displacements info)(ident \<mapsto> [0, curr_reg])\<rparr>,
                             gpr_count + 1, fp_count))
                 else None)
              else
                (if i < ARG_REG_AMOUNT div 2 then
                   (let curr_reg = R_FA0 + 2 * int fp_count;
                        info = uni_printf info (''is in register '' @ mips_register_to_io curr_reg @ NL)
                    in Some (info\<lparr>displacements := (displacements info)(ident \<mapsto> [0, curr_reg])\<rparr>,
                             gpr_count, fp_count + 1))
                 else None)))"

text \<open>
  \<^verbatim>\<open>emit_function_definition\<close>. The body is written to a buffer of its own and copied
  behind the text that sets up \<^verbatim>\<open>$fp\<close> and \<^verbatim>\<open>$sp\<close>. The label declared before the text that
  restores the registers is built with the kind \<^verbatim>\<open>L_END\<close>, as the source builds it.
\<close>

definition emit_function_definition ::
  "(statement \<Rightarrow> information \<Rightarrow> information option) \<Rightarrow> sx_tables \<Rightarrow> nat \<Rightarrow> nat list \<Rightarrow> statement
     \<Rightarrow> information \<Rightarrow> information option" where
  "emit_function_definition emit_stmt sx ref_ident params body info =
     do {
       let func_label = \<lparr>lbl_kind = L_FUNC, lbl_num = ref_ident\<rparr>;
       let info = uni_printf info
         (emit_label_declaration func_label
          @ TAB @ ''# '' @ QUOTE @ ident_get_spelling sx ref_ident @ QUOTE @ '' function:'' @ NL);
       let func_type = ident_get_type sx ref_ident;
       let parameters = type_function_get_parameter_amount sx func_type;
       let info = info\<lparr>curr_function_ident := ref_ident, max_displ := 0\<rparr>;
       let info = uni_printf info preserved_registers_saving;
       let info =
         (if max_displ info mod 8 \<noteq> 0 then
            (let padding = 8 - max_displ info mod 8;
                 info = info\<lparr>max_displ := max_displ info + padding\<rparr>
             in if padding \<noteq> 0
                then uni_printf info
                  (NL @ TAB @ ''# padding -- max displacement == '' @ size_to_str (max_displ info) @ NL)
                else info)
          else info);
       let old_io = io info;
       let info = info\<lparr>io := []\<rparr>;
       let info = uni_printf info (NL @ TAB @ ''# function parameters:'' @ NL);
       (info, gpr_count, fp_count) \<leftarrow>
          for_loop [0 ..< parameters] (emit_function_parameter sx params) (info, 0, 0);
       let info = uni_printf info (NL @ TAB @ ''# function body:'' @ NL);
       info \<leftarrow> emit_stmt body info;
       let buffer = io info;
       let info = info\<lparr>io := old_io\<rparr>;
       let info = uni_printf info
         (NL @ TAB @ ''# setting up $fp:'' @ NL
          @ to_code_2R_I IC_MIPS_ADDI R_FP R_FP
              (- int (max_displ info + FUNC_DISPL_PRESEREVED + WORD_LENGTH))
          @ NL @ TAB @ ''# setting up $sp:'' @ NL
          @ to_code_2R IC_MIPS_MOVE R_SP R_FP
          @ to_code_2R_I IC_MIPS_ADDI R_FP R_FP (- int WORD_LENGTH)
          @ buffer);
       let end_label = \<lparr>lbl_kind = L_END, lbl_num = ref_ident\<rparr>;
       Some (uni_printf info (emit_label_declaration end_label @ data_restoring (max_displ info)))
     }"

definition emit_declaration ::
  "(statement \<Rightarrow> information \<Rightarrow> information option) \<Rightarrow> sx_tables \<Rightarrow> expr_emitters \<Rightarrow> nat
     \<Rightarrow> declaration_t \<Rightarrow> information \<Rightarrow> information option" where
  "emit_declaration emit_stmt sx ee fuel nd info =
     (case nd of
        DECL_VAR identifier bounds initializer \<Rightarrow>
          do {
            info \<leftarrow> emit_variable_declaration sx ee fuel identifier bounds initializer info;
            Some (uni_printf info NL)
          }
      | DECL_FUNC ref_ident params body \<Rightarrow>
          do {
            info \<leftarrow> emit_function_definition emit_stmt sx ref_ident params body info;
            Some (uni_printf info NL)
          }
      | DECL_OTHER \<Rightarrow> Some info)"

definition emit_declaration_statement ::
  "(statement \<Rightarrow> information \<Rightarrow> information option) \<Rightarrow> sx_tables \<Rightarrow> expr_emitters \<Rightarrow> nat
     \<Rightarrow> declaration_t list \<Rightarrow> information \<Rightarrow> information option" where
  "emit_declaration_statement emit_stmt sx ee fuel declarators info =
     for_loop declarators (emit_declaration emit_stmt sx ee fuel) info"

lemma emit_compound_statement_cong [fundef_cong]:
  "substmts = substmts' \<Longrightarrow> info = info'
   \<Longrightarrow> (\<And>s u. s \<in> set substmts' \<Longrightarrow> f s u = g s u)
   \<Longrightarrow> emit_compound_statement f substmts info = emit_compound_statement g substmts' info'"
  unfolding emit_compound_statement_def by (simp cong: for_loop_cong)

lemma emit_if_statement_cong [fundef_cong]:
  "then_substmt = then_substmt' \<Longrightarrow> else_substmt = else_substmt'
   \<Longrightarrow> (\<And>u. f then_substmt' u = g then_substmt' u)
   \<Longrightarrow> (\<And>els u. else_substmt' = Some els \<Longrightarrow> f els u = g els u)
   \<Longrightarrow> emit_if_statement f sx ee condition then_substmt else_substmt info
       = emit_if_statement g sx ee condition then_substmt' else_substmt' info"
  unfolding emit_if_statement_def by (simp cong: option.case_cong)

lemma emit_while_statement_cong [fundef_cong]:
  "body = body' \<Longrightarrow> (\<And>u. f body' u = g body' u)
   \<Longrightarrow> emit_while_statement f sx ee condition body info
       = emit_while_statement g sx ee condition body' info"
  unfolding emit_while_statement_def by simp

lemma emit_do_statement_cong [fundef_cong]:
  "body = body' \<Longrightarrow> (\<And>u. f body' u = g body' u)
   \<Longrightarrow> emit_do_statement f sx ee body condition info
       = emit_do_statement g sx ee body' condition info"
  unfolding emit_do_statement_def by simp

lemma emit_for_statement_cong [fundef_cong]:
  "inition = inition' \<Longrightarrow> body = body'
   \<Longrightarrow> (\<And>ini u. inition' = Some ini \<Longrightarrow> f ini u = g ini u)
   \<Longrightarrow> (\<And>u. f body' u = g body' u)
   \<Longrightarrow> emit_for_statement f sx ee inition condition increment body info
       = emit_for_statement g sx ee inition' condition increment body' info"
  unfolding emit_for_statement_def by (simp cong: option.case_cong)

lemma emit_function_definition_cong [fundef_cong]:
  "body = body' \<Longrightarrow> (\<And>u. f body' u = g body' u)
   \<Longrightarrow> emit_function_definition f sx ref_ident params body info
       = emit_function_definition g sx ref_ident params body' info"
  unfolding emit_function_definition_def by simp

lemma emit_declaration_cong [fundef_cong]:
  "nd = nd' \<Longrightarrow> (\<And>ref_ident params body u. nd' = DECL_FUNC ref_ident params body \<Longrightarrow> f body u = g body u)
   \<Longrightarrow> emit_declaration f sx ee fuel nd info = emit_declaration g sx ee fuel nd' info"
  unfolding emit_declaration_def
  by (simp split: declaration_t.split cong: emit_function_definition_cong)

lemma emit_declaration_statement_cong [fundef_cong]:
  "declarators = declarators'
   \<Longrightarrow> (\<And>nd ref_ident params body u.
          nd \<in> set declarators' \<Longrightarrow> nd = DECL_FUNC ref_ident params body \<Longrightarrow> f body u = g body u)
   \<Longrightarrow> emit_declaration_statement f sx ee fuel declarators info
       = emit_declaration_statement g sx ee fuel declarators' info"
  unfolding emit_declaration_statement_def
  by (rule for_loop_cong) (auto intro: emit_declaration_cong)

fun emit_statement ::
  "sx_tables \<Rightarrow> expr_emitters \<Rightarrow> nat \<Rightarrow> statement \<Rightarrow> information \<Rightarrow> information option" where
  "emit_statement sx ee fuel nd info =
     do {
       info \<leftarrow>
         (case nd of
            STMT_DECL declarators \<Rightarrow>
              emit_declaration_statement (emit_statement sx ee fuel) sx ee fuel declarators info
          | STMT_CASE \<Rightarrow> Some info
          | STMT_DEFAULT \<Rightarrow> Some info
          | STMT_COMPOUND substmts \<Rightarrow> emit_compound_statement (emit_statement sx ee fuel) substmts info
          | STMT_EXPR e \<Rightarrow>
              do {
                (_, info) \<leftarrow> emit_void_expression ee e info;
                Some info
              }
          | STMT_NULL \<Rightarrow> Some info
          | STMT_IF condition then_substmt else_substmt \<Rightarrow>
              emit_if_statement (emit_statement sx ee fuel) sx ee condition then_substmt else_substmt info
          | STMT_SWITCH \<Rightarrow> Some info
          | STMT_WHILE condition body \<Rightarrow>
              emit_while_statement (emit_statement sx ee fuel) sx ee condition body info
          | STMT_DO body condition \<Rightarrow>
              emit_do_statement (emit_statement sx ee fuel) sx ee body condition info
          | STMT_FOR inition condition increment body \<Rightarrow>
              emit_for_statement (emit_statement sx ee fuel) sx ee inition condition increment body info
          | STMT_CONTINUE \<Rightarrow> Some (emit_continue_statement info)
          | STMT_BREAK \<Rightarrow> Some (emit_break_statement info)
          | STMT_RETURN ty e \<Rightarrow> emit_return_statement sx ee fuel ty e info
          | STMT_OTHER \<Rightarrow> Some info);
       Some (uni_printf info NL)
     }"

declare emit_statement.simps [simp del]

subsection \<open>The labels of the enclosing loop\<close>

text \<open>
  The fields \<^verbatim>\<open>label_continue\<close> and \<^verbatim>\<open>label_break\<close> are assigned in the three loop emitters
  only. Everything else the statement emitter calls leaves them as they are, provided
  the emitter of expressions does.
\<close>

definition cached_labels :: "information \<Rightarrow> label \<times> label" where
  "cached_labels info = (label_continue info, label_break info)"

lemma cached_labels_uni_printf [simp]: "cached_labels (uni_printf info s) = cached_labels info"
  by (simp add: cached_labels_def uni_printf_def)

lemma cached_labels_free_register [simp]: "cached_labels (free_register info reg) = cached_labels info"
  by (simp add: cached_labels_def free_register_def)

lemma cached_labels_free_rvalue [simp]: "cached_labels (free_rvalue info rv) = cached_labels info"
  by (simp add: free_rvalue_def)










lemma cached_labels_label_num [simp]:
  "cached_labels (info\<lparr>label_num := n\<rparr>) = cached_labels info"
  by (simp add: cached_labels_def)




lemma cached_labels_updates [simp]:
  "cached_labels (info\<lparr>io := s\<rparr>) = cached_labels info"
  "cached_labels (info\<lparr>max_displ := n\<rparr>) = cached_labels info"
  "cached_labels (info\<lparr>displacements := d\<rparr>) = cached_labels info"
  "cached_labels (info\<lparr>curr_function_ident := n\<rparr>) = cached_labels info"
  "cached_labels (info\<lparr>info_displ := i\<rparr>) = cached_labels info"
  "cached_labels (info\<lparr>registers := r\<rparr>) = cached_labels info"
  "cached_labels (system_error info) = cached_labels info"
  by (simp_all add: cached_labels_def system_error_def)


definition expr_emitters_keep_labels :: "expr_emitters \<Rightarrow> bool" where
  "expr_emitters_keep_labels ee \<longleftrightarrow>
     (\<forall>nd info rv info'. emit_expression ee nd info = Some (rv, info')
        \<longrightarrow> label_continue info' = label_continue info \<and> label_break info' = label_break info)
     \<and> (\<forall>nd info lv info'. emit_lvalue ee nd info = Some (lv, info')
        \<longrightarrow> label_continue info' = label_continue info \<and> label_break info' = label_break info)"


















lemma cached_labels_emit_continue_break [simp]:
  "cached_labels (emit_continue_statement info) = cached_labels info"
  "cached_labels (emit_break_statement info) = cached_labels info"
  by (simp_all add: emit_continue_statement_def emit_break_statement_def)


subsection \<open>Examples\<close>

text \<open>
  Tables for the examples: the scalar types are negative, an array type is 1003, every
  identifier is a local \<^verbatim>\<open>int\<close> spelled \<^verbatim>\<open>f\<close>, a function type has no parameters. The
  emitter of expressions for the examples emits literals, which give a constant rvalue
  and write nothing (\<^verbatim>\<open>emit_literal_expression\<close>), and nothing else.
\<close>

definition sx_example :: sx_tables where
  "sx_example =
     \<lparr>TYPE_BOOLEAN = - 4, TYPE_CHARACTER = - 2, TYPE_INTEGER = - 1, TYPE_FLOATING = - 3,
      TYPE_ARRAY = 1003,
      type_is_floating = (\<lambda>t. t = - 3), type_is_array = (\<lambda>t. t = 1003),
      type_is_structure = (\<lambda>t. False), type_is_scalar = (\<lambda>t. t < 0),
      type_get_class = (\<lambda>t. t), type_size = (\<lambda>t. if t = - 3 then 2 else 1),
      type_structure_get_member_amount = (\<lambda>t. 0),
      type_structure_get_member_type = (\<lambda>t i. - 1),
      type_array_get_element_type = (\<lambda>t. - 1),
      type_function_get_parameter_amount = (\<lambda>t. 0),
      ident_get_type = (\<lambda>i. - 1), ident_is_local = (\<lambda>i. True),
      ident_get_spelling = (\<lambda>i. ''f''), ITEM_MAX = 2147483647,
      printf_f = (\<lambda>d. ''0.000000'')\<rparr>"

definition literal_emitters :: "sx_tables \<Rightarrow> expr_emitters" where
  "literal_emitters sx =
     \<lparr>emit_expression = (\<lambda>nd info.
        if \<not> expression_is_lvalue nd \<and> expression_get_class nd = EXPR_LITERAL
        then Some (emit_literal_expression sx nd, info) else None),
      emit_lvalue = (\<lambda>nd info. None)\<rparr>"


lemma literal_emitters_keep_labels: "expr_emitters_keep_labels (literal_emitters sx)"
  by (simp add: expr_emitters_keep_labels_def literal_emitters_def)





text \<open>
  Claim C8. \<^verbatim>\<open>emit_binary_operation\<close> with the guard as the source writes it, \<^verbatim>\<open>BIN_DIV\<close>
  twice, and with the second \<^verbatim>\<open>BIN_DIV\<close> taken out return the same rvalue and the same state,
  the emitted text included, for every pair of rvalues and every operation; both abort
  on the same inputs.
\<close>

theorem emit_binary_operation_second_div_redundant:
  "emit_binary_operation_once sx info rval1 rval2 operation
     = emit_binary_operation sx info rval1 rval2 operation"
proof -
  have "materialize_guard_once = materialize_guard"
    by (rule ext) (auto simp: materialize_guard_once_def materialize_guard_def)
  then show ?thesis
    by (simp add: emit_binary_operation_once_def emit_binary_operation_def)
qed

text \<open>
  Claim C7. After the identifier is entered into the table of displacements, which
  writes no text, \<^verbatim>\<open>emit_variable_declaration\<close> is \<^verbatim>\<open>emit_array_declaration\<close> exactly when
  \<^verbatim>\<open>type_is_array\<close> is false for the type of the declared identifier. When the type is an
  array, it emits only the initialiser, if there is one: the expression, its store into
  the variable, and the release of its register; with no initialiser it emits nothing.
\<close>

theorem emit_variable_declaration_inverted_guard:
  "emit_variable_declaration sx ee fuel ident bounds initializer info =
     (if type_is_array sx (ident_get_type sx ident) then
        (case initializer of
           None \<Rightarrow> Some (snd (displacements_add sx info ident))
         | Some init \<Rightarrow>
             do {
               (val, info1) \<leftarrow> emit_expression ee init (snd (displacements_add sx info ident));
               (_, info2) \<leftarrow> emit_store_of_rvalue fuel sx val (fst (displacements_add sx info ident)) info1;
               Some (free_rvalue info2 val)
             })
      else emit_array_declaration sx ee fuel ident bounds initializer
             (snd (displacements_add sx info ident)))
   \<and> io (snd (displacements_add sx info ident)) = io info"
  by (simp add: emit_variable_declaration_def displacements_add_def Let_def split: option.split)

text \<open>
  Claim C1, at a function whose body is \<^verbatim>\<open>return;\<close> and whose identifier is 5. The return
  statement jumps to \<^verbatim>\<open>FUNCEND5\<close>. The label the function definition declares in front of
  the text that restores the registers is \<^verbatim>\<open>END5\<close>: it is built with the kind \<^verbatim>\<open>L_END\<close>, not
  \<^verbatim>\<open>L_FUNCEND\<close>, so the label the return jumps to is declared nowhere in the emitted text.
\<close>

theorem function_epilogue_label_example:
  "map_option io
     (emit_function_definition (emit_statement sx_example (literal_emitters sx_example) 1)
        sx_example 5 [] (STMT_RETURN 0 None) information_zero)
   = Some (''FUNC5:'' @ NL @ TAB @ ''# '' @ QUOTE @ ''f'' @ QUOTE @ '' function:'' @ NL
       @ preserved_registers_saving
       @ NL @ TAB @ ''# setting up $fp:'' @ NL @ TAB @ ''addi $fp, $fp, -80'' @ NL
       @ NL @ TAB @ ''# setting up $sp:'' @ NL @ TAB @ ''move $sp, $fp'' @ NL
       @ TAB @ ''addi $fp, $fp, -4'' @ NL
       @ NL @ TAB @ ''# function parameters:'' @ NL
       @ NL @ TAB @ ''# function body:'' @ NL
       @ TAB @ ''j FUNCEND5'' @ NL @ NL
       @ ''END5:'' @ NL
       @ data_restoring 0)"
  by (simp add: emit_function_definition_def emit_statement.simps emit_return_statement_def
      uni_printf_def information_zero_def sx_example_def Let_def
      emit_label_declaration_def emit_label_def emit_unconditional_branch_def
      size_to_str.simps digit_def to_code_2R_I_def to_code_2R_def item_to_str_def
      mips_register_to_io_def register_names_def)

end
